theory Spec2Isabelle
  imports Main
begin

section \<open>GitHub Pages MCP server: tool dispatch, validation and handlers\<close>

text \<open>
  A shallow embedding of \<^verbatim>\<open>src/index.ts\<close>. The file declares five zod input schemas, a
  request handler that routes a tool name to one of five handlers, and the handlers, each
  of which parses its raw arguments and then talks to the GitHub REST client (Octokit).

  Two libraries are used by the file without being part of it: zod (validation) and
  Octokit (the upstream client). Zod is modelled by the behaviour of the constructors the
  schemas use (\<^verbatim>\<open>z.string\<close>, \<^verbatim>\<open>z.enum\<close>, \<^verbatim>\<open>z.object\<close>, \<^verbatim>\<open>z.array\<close>, \<^verbatim>\<open>.optional\<close>) with
  the issue paths and default messages of zod 3. Octokit is a parameter: a record of
  functions over an abstract upstream state, each of which answers or fails.
\<close>

subsection \<open>JSON values\<close>

text \<open>
  Raw tool arguments and upstream response bodies are JSON. An object is an association
  list, read with \<open>map_of\<close> (a parsed JSON object holds one value per key);
  \<open>None\<close> of type \<open>json option\<close> is JavaScript's \<^verbatim>\<open>undefined\<close> (a key that is absent).
  Numbers are only ever inspected for their type and their truthiness.
\<close>

datatype json =
    JNull
  | JBool bool
  | JNum int
  | JStr string
  | JArr "json list"
  | JObj "(string \<times> json) list"

text \<open>JavaScript truthiness, as used by \<^verbatim>\<open>||\<close>.\<close>

fun truthy :: "json \<Rightarrow> bool" where
  "truthy JNull = False"
| "truthy (JBool b) = b"
| "truthy (JNum n) = (n \<noteq> 0)"
| "truthy (JStr s) = (s \<noteq> [])"
| "truthy (JArr xs) = True"
| "truthy (JObj kvs) = True"

text \<open>
  \<^verbatim>\<open>s || d\<close> for an optional string \<open>s\<close>: the default is taken when \<open>s\<close> is
  \<^verbatim>\<open>undefined\<close> and also when it is the empty string.
\<close>

definition or_default :: "string option \<Rightarrow> string \<Rightarrow> string" where
  "or_default s d = (case s of None \<Rightarrow> d | Some v \<Rightarrow> if v = [] then d else v)"

text \<open>
  An object literal handed to \<^verbatim>\<open>JSON.stringify\<close>: a key whose value is \<^verbatim>\<open>undefined\<close> is
  left out of the output.
\<close>

definition obj :: "(string \<times> json option) list \<Rightarrow> json" where
  "obj kvs = JObj (concat (map (\<lambda>(k, v). case v of None \<Rightarrow> [] | Some j \<Rightarrow> [(k, j)]) kvs))"

subsection \<open>Strings\<close>

definition digit_char :: "nat \<Rightarrow> char" where
  "digit_char d =
     (if d = 0 then CHR ''0'' else if d = 1 then CHR ''1'' else if d = 2 then CHR ''2''
      else if d = 3 then CHR ''3'' else if d = 4 then CHR ''4'' else if d = 5 then CHR ''5''
      else if d = 6 then CHR ''6'' else if d = 7 then CHR ''7'' else if d = 8 then CHR ''8''
      else CHR ''9'')"

text \<open>A number converted to a string, as \<^verbatim>\<open>Array.prototype.join\<close> does for an index.\<close>

fun decimal :: "nat \<Rightarrow> string" where
  "decimal n = (if n < 10 then [digit_char n] else decimal (n div 10) @ [digit_char (n mod 10)])"

text \<open>\<^verbatim>\<open>xs.join(sep)\<close>\<close>

fun join :: "string \<Rightarrow> string list \<Rightarrow> string" where
  "join sep [] = []"
| "join sep [x] = x"
| "join sep (x # y # ys) = x @ sep @ join sep (y # ys)"

subsection \<open>Zod: issues and the schema constructors in use\<close>

text \<open>An element of an issue path: an object key or an array index.\<close>

datatype seg = Key string | Idx nat

record issue =
  issue_path :: "seg list"
  issue_message :: string

text \<open>The result of parsing: every issue found, or the typed value.\<close>

type_synonym 'a parsed = "issue list + 'a"

text \<open>A zod type, applied to the path of the value and the value (\<open>None\<close>: undefined).\<close>

type_synonym 'a ztype = "seg list \<Rightarrow> json option \<Rightarrow> 'a parsed"

text \<open>zod's \<^verbatim>\<open>getParsedType\<close>, on the values JSON has.\<close>

fun parsed_type :: "json option \<Rightarrow> string" where
  "parsed_type None = ''undefined''"
| "parsed_type (Some JNull) = ''null''"
| "parsed_type (Some (JBool b)) = ''boolean''"
| "parsed_type (Some (JNum n)) = ''number''"
| "parsed_type (Some (JStr s)) = ''string''"
| "parsed_type (Some (JArr xs)) = ''array''"
| "parsed_type (Some (JObj kvs)) = ''object''"

text \<open>
  The issue \<^verbatim>\<open>invalid_type\<close> with zod's default message: \<^verbatim>\<open>Required\<close> when the value is
  undefined, \<^verbatim>\<open>Expected E, received T\<close> otherwise.
\<close>

definition invalid_type :: "seg list \<Rightarrow> string \<Rightarrow> json option \<Rightarrow> issue" where
  "invalid_type p expected v =
     \<lparr>issue_path = p,
      issue_message = (if v = None then ''Required''
                       else ''Expected '' @ expected @ '', received '' @ parsed_type v)\<rparr>"

text \<open>zod's \<^verbatim>\<open>util.joinValues\<close> on string options: each quoted, joined by \<^verbatim>\<open> | \<close>.\<close>

definition quoted :: "string \<Rightarrow> string" where
  "quoted v = [CHR 0x27] @ v @ [CHR 0x27]"

definition joinValues :: "string list \<Rightarrow> string" where
  "joinValues vs = join '' | '' (map quoted vs)"

definition z_string :: "string ztype" where
  "z_string p v = (case v of Some (JStr s) \<Rightarrow> Inr s | _ \<Rightarrow> Inl [invalid_type p ''string'' v])"

definition z_enum :: "string list \<Rightarrow> string ztype" where
  "z_enum options p v =
     (case v of
        Some (JStr s) \<Rightarrow>
          if s \<in> set options then Inr s
          else Inl [\<lparr>issue_path = p,
                     issue_message = ''Invalid enum value. Expected '' @ joinValues options
                                     @ '', received '' @ quoted s\<rparr>]
      | _ \<Rightarrow> Inl [invalid_type p (joinValues options) v])"

definition z_optional :: "'a ztype \<Rightarrow> 'a option ztype" where
  "z_optional t p v = (case v of None \<Rightarrow> Inr None | Some j \<Rightarrow> map_sum id Some (t p v))"

definition issues_of :: "'a parsed \<Rightarrow> issue list" where
  "issues_of r = (case r of Inl is \<Rightarrow> is | Inr x \<Rightarrow> [])"

text \<open>
  \<^verbatim>\<open>z.array(t)\<close>: the items are parsed in order, item \<open>i\<close> at the path extended by \<open>i\<close>, and the
  issues of all items are kept.
\<close>

fun parse_items :: "'a ztype \<Rightarrow> seg list \<Rightarrow> nat \<Rightarrow> json list \<Rightarrow> 'a list parsed" where
  "parse_items t p i [] = Inr []"
| "parse_items t p i (x # xs) =
     (case (t (p @ [Idx i]) (Some x), parse_items t p (Suc i) xs) of
        (Inr y, Inr ys) \<Rightarrow> Inr (y # ys)
      | (r, rs) \<Rightarrow> Inl (issues_of r @ issues_of rs))"

definition z_array :: "'a ztype \<Rightarrow> 'a list ztype" where
  "z_array t p v = (case v of Some (JArr xs) \<Rightarrow> parse_items t p 0 xs
                    | _ \<Rightarrow> Inl [invalid_type p ''array'' v])"

text \<open>
  \<^verbatim>\<open>z.object({...})\<close> parses the keys of its shape in the order they are declared, each at
  the path extended by the key, and keeps the issues of all of them; keys outside the shape
  are dropped. \<open>z_field\<close> parses one key of the shape and \<open>ap\<close> adds it to the keys
  parsed before it.
\<close>

definition z_field :: "'a ztype \<Rightarrow> seg list \<Rightarrow> (string \<times> json) list \<Rightarrow> string \<Rightarrow> 'a parsed" where
  "z_field t p kvs k = t (p @ [Key k]) (map_of kvs k)"

definition ap :: "('a \<Rightarrow> 'b) parsed \<Rightarrow> 'a parsed \<Rightarrow> 'b parsed" where
  "ap f x = (case (f, x) of
               (Inr g, Inr a) \<Rightarrow> Inr (g a)
             | _ \<Rightarrow> Inl (issues_of f @ issues_of x))"

subsection \<open>The tool input schemas\<close>

record source_in =
  src_branch :: string
  src_path :: "string option"

record enable_in =
  en_owner :: string
  en_repo :: string
  en_source :: source_in
  en_build_type :: "string option"

record repo_in =
  rp_owner :: string
  rp_repo :: string

record file_in =
  fl_path :: string
  fl_content :: string
  fl_encoding :: "string option"

record deploy_in =
  dp_owner :: string
  dp_repo :: string
  dp_branch :: string
  dp_message :: "string option"
  dp_files :: "file_in list option"

record update_in =
  up_owner :: string
  up_repo :: string
  up_source :: "source_in option"
  up_build_type :: "string option"
  up_cname :: "string option"

text \<open>
  The object \<^verbatim>\<open>{branch: z.string(), path: z.enum(["/", "/docs"]).optional()}\<close>, which is
  the \<^verbatim>\<open>source\<close> of both the enable and the update schema.
\<close>

definition SourceSchema :: "source_in ztype" where
  "SourceSchema p v =
     (case v of
        Some (JObj kvs) \<Rightarrow>
          ap (ap (Inr (\<lambda>b pa. \<lparr>src_branch = b, src_path = pa\<rparr>))
                 (z_field z_string p kvs ''branch''))
             (z_field (z_optional (z_enum [''/'', ''/docs''])) p kvs ''path'')
      | _ \<Rightarrow> Inl [invalid_type p ''object'' v])"

definition EnableGithubPagesSchema :: "enable_in ztype" where
  "EnableGithubPagesSchema p v =
     (case v of
        Some (JObj kvs) \<Rightarrow>
          ap (ap (ap (ap (Inr (\<lambda>ow re so bt.
                          \<lparr>en_owner = ow, en_repo = re, en_source = so, en_build_type = bt\<rparr>))
                         (z_field z_string p kvs ''owner''))
                     (z_field z_string p kvs ''repo''))
                 (z_field SourceSchema p kvs ''source''))
             (z_field (z_optional (z_enum [''legacy'', ''workflow''])) p kvs ''build_type'')
      | _ \<Rightarrow> Inl [invalid_type p ''object'' v])"

text \<open>
  \<^verbatim>\<open>{owner: z.string(), repo: z.string()}\<close>: the schemas \<^verbatim>\<open>GetGithubPagesInfoSchema\<close> and
  \<^verbatim>\<open>DisableGithubPagesSchema\<close> are this same object.
\<close>

definition RepoSchema :: "repo_in ztype" where
  "RepoSchema p v =
     (case v of
        Some (JObj kvs) \<Rightarrow>
          ap (ap (Inr (\<lambda>ow re. \<lparr>rp_owner = ow, rp_repo = re\<rparr>))
                 (z_field z_string p kvs ''owner''))
             (z_field z_string p kvs ''repo'')
      | _ \<Rightarrow> Inl [invalid_type p ''object'' v])"

definition GetGithubPagesInfoSchema :: "repo_in ztype" where
  "GetGithubPagesInfoSchema = RepoSchema"

definition DisableGithubPagesSchema :: "repo_in ztype" where
  "DisableGithubPagesSchema = RepoSchema"

definition FileSchema :: "file_in ztype" where
  "FileSchema p v =
     (case v of
        Some (JObj kvs) \<Rightarrow>
          ap (ap (ap (Inr (\<lambda>pa co en. \<lparr>fl_path = pa, fl_content = co, fl_encoding = en\<rparr>))
                     (z_field z_string p kvs ''path''))
                 (z_field z_string p kvs ''content''))
             (z_field (z_optional (z_enum [''utf-8'', ''base64''])) p kvs ''encoding'')
      | _ \<Rightarrow> Inl [invalid_type p ''object'' v])"

definition DeployToGithubPagesSchema :: "deploy_in ztype" where
  "DeployToGithubPagesSchema p v =
     (case v of
        Some (JObj kvs) \<Rightarrow>
          ap (ap (ap (ap (ap (Inr (\<lambda>ow re br me fs.
                              \<lparr>dp_owner = ow, dp_repo = re, dp_branch = br,
                               dp_message = me, dp_files = fs\<rparr>))
                             (z_field z_string p kvs ''owner''))
                         (z_field z_string p kvs ''repo''))
                     (z_field z_string p kvs ''branch''))
                 (z_field (z_optional z_string) p kvs ''message''))
             (z_field (z_optional (z_array FileSchema)) p kvs ''files'')
      | _ \<Rightarrow> Inl [invalid_type p ''object'' v])"

definition UpdateGithubPagesConfigSchema :: "update_in ztype" where
  "UpdateGithubPagesConfigSchema p v =
     (case v of
        Some (JObj kvs) \<Rightarrow>
          ap (ap (ap (ap (ap (Inr (\<lambda>ow re so bt cn.
                              \<lparr>up_owner = ow, up_repo = re, up_source = so,
                               up_build_type = bt, up_cname = cn\<rparr>))
                             (z_field z_string p kvs ''owner''))
                         (z_field z_string p kvs ''repo''))
                     (z_field (z_optional SourceSchema) p kvs ''source''))
                 (z_field (z_optional (z_enum [''legacy'', ''workflow''])) p kvs ''build_type''))
             (z_field (z_optional z_string) p kvs ''cname'')
      | _ \<Rightarrow> Inl [invalid_type p ''object'' v])"

text \<open>\<^verbatim>\<open>Schema.parse(args)\<close>: the value, or a \<^verbatim>\<open>ZodError\<close> with the issues.\<close>

definition parse :: "'a ztype \<Rightarrow> json option \<Rightarrow> 'a parsed" where
  "parse schema args = schema [] args"

subsection \<open>The upstream client\<close>

text \<open>
  What a \<^verbatim>\<open>catch (error: any)\<close> block reads from the caught value: \<^verbatim>\<open>error.status\<close>,
  \<^verbatim>\<open>error.message\<close> and \<^verbatim>\<open>error.response?.data\<close>.
\<close>

record js_error =
  err_status :: "int option"
  err_message :: string
  err_data :: "json option"

record pages_source =
  ps_branch :: string
  ps_path :: string

text \<open>The argument of \<^verbatim>\<open>repos.createPagesSite\<close>.\<close>

record create_params =
  cp_owner :: string
  cp_repo :: string
  cp_source :: pages_source
  cp_build_type :: string

text \<open>
  \<^verbatim>\<open>updateParams\<close>, the argument of \<^verbatim>\<open>repos.updateInformationAboutPagesSite\<close>: an optional
  field is \<open>None\<close> when the object has no such key.
\<close>

record update_params =
  upd_owner :: string
  upd_repo :: string
  upd_source :: "pages_source option"
  upd_build_type :: "string option"
  upd_cname :: "string option"

record tree_item =
  ti_path :: string
  ti_mode :: string
  ti_type :: string
  ti_sha :: string

text \<open>
  One request to the upstream API, with its arguments in the order of the source:
  \<open>GetPages owner repo\<close>, \<open>DeletePagesSite owner repo\<close>, \<open>GetRef owner repo ref\<close>,
  \<open>GetCommit owner repo commit_sha\<close>, \<open>CreateBlob owner repo content encoding\<close>,
  \<open>CreateTree owner repo tree base_tree\<close>, \<open>CreateCommit owner repo message tree parents\<close>,
  \<open>UpdateRef owner repo ref sha\<close>.
\<close>

datatype call =
    CreatePagesSite create_params
  | GetPages string string
  | DeletePagesSite string string
  | UpdateInformationAboutPagesSite update_params
  | GetRef string string string
  | GetCommit string string string
  | CreateBlob string string string string
  | CreateTree string string "tree_item list" string
  | CreateCommit string string string string "string list"
  | UpdateRef string string string string

text \<open>The body of a Pages response, \<^verbatim>\<open>response.data\<close>: a JSON object.\<close>

type_synonym pages_data = "(string \<times> json) list"

text \<open>
  The Octokit methods the handlers call, over an upstream state \<open>'s\<close>. A method fails
  (the promise rejects) with \<open>Inl\<close>, or answers with the part of the response the handler
  reads: the body of a Pages response, or the SHA of a git object
  (\<^verbatim>\<open>data.object.sha\<close> of a reference, \<^verbatim>\<open>data.tree.sha\<close> of a commit, \<^verbatim>\<open>data.sha\<close> of a new
  blob, tree or commit). The REST endpoint behind \<^verbatim>\<open>updateInformationAboutPagesSite\<close> answers
  with status 204 and no content, and what \<^verbatim>\<open>response.data\<close> then is depends on the version of
  the client: its body is optional, \<open>None\<close> for \<^verbatim>\<open>undefined\<close>, and \<open>Some\<close> of the keys it has
  (none, for a value without the keys the handler reads) otherwise.
\<close>

record 's octokit =
  createPagesSite :: "create_params \<Rightarrow> 's \<Rightarrow> (js_error + pages_data) \<times> 's"
  getPages :: "string \<Rightarrow> string \<Rightarrow> 's \<Rightarrow> (js_error + pages_data) \<times> 's"
  deletePagesSite :: "string \<Rightarrow> string \<Rightarrow> 's \<Rightarrow> (js_error + unit) \<times> 's"
  updateInformationAboutPagesSite ::
    "update_params \<Rightarrow> 's \<Rightarrow> (js_error + pages_data option) \<times> 's"
  getRef :: "string \<Rightarrow> string \<Rightarrow> string \<Rightarrow> 's \<Rightarrow> (js_error + string) \<times> 's"
  getCommit :: "string \<Rightarrow> string \<Rightarrow> string \<Rightarrow> 's \<Rightarrow> (js_error + string) \<times> 's"
  createBlob :: "string \<Rightarrow> string \<Rightarrow> string \<Rightarrow> string \<Rightarrow> 's \<Rightarrow> (js_error + string) \<times> 's"
  createTree :: "string \<Rightarrow> string \<Rightarrow> tree_item list \<Rightarrow> string \<Rightarrow> 's \<Rightarrow> (js_error + string) \<times> 's"
  createCommit ::
    "string \<Rightarrow> string \<Rightarrow> string \<Rightarrow> string \<Rightarrow> string list \<Rightarrow> 's \<Rightarrow> (js_error + string) \<times> 's"
  updateRef :: "string \<Rightarrow> string \<Rightarrow> string \<Rightarrow> string \<Rightarrow> 's \<Rightarrow> (js_error + unit) \<times> 's"

subsection \<open>Awaited upstream calls inside a try block\<close>

text \<open>
  The body of a \<^verbatim>\<open>try\<close> block runs on the requests issued so far and the upstream state. It
  ends with a value, or with the error that was thrown or that an awaited call rejected
  with; in both cases the requests issued and the upstream state are kept.
\<close>

type_synonym ('s, 'a) api = "call list \<times> 's \<Rightarrow> (js_error + 'a) \<times> call list \<times> 's"

definition api_return :: "'a \<Rightarrow> ('s, 'a) api" where
  "api_return x = (\<lambda>w. (Inr x, w))"

definition api_throw :: "js_error \<Rightarrow> ('s, 'a) api" where
  "api_throw e = (\<lambda>w. (Inl e, w))"

definition api_bind :: "('s, 'a) api \<Rightarrow> ('a \<Rightarrow> ('s, 'b) api) \<Rightarrow> ('s, 'b) api" where
  "api_bind m f = (\<lambda>w. case m w of (Inl e, w') \<Rightarrow> (Inl e, w') | (Inr x, w') \<Rightarrow> f x w')"

text \<open>\<^verbatim>\<open>await this.octokit.m(args)\<close>: the request \<open>c\<close> is issued and answered by \<open>m\<close>.\<close>

definition perform :: "call \<Rightarrow> ('s \<Rightarrow> (js_error + 'a) \<times> 's) \<Rightarrow> ('s, 'a) api" where
  "perform c m = (\<lambda>(log, s). case m s of (r, s') \<Rightarrow> (r, log @ [c], s'))"

text \<open>
  \<^verbatim>\<open>await Promise.all(xs.map(async (x) => f(x)))\<close>, where each \<open>f x\<close> issues its request
  before its first \<^verbatim>\<open>await\<close>: \<^verbatim>\<open>map\<close> starts every \<open>f x\<close>, in the order of \<open>xs\<close>, so every
  request is issued whether or not another one fails. The result is the list of the
  values in the order of \<open>xs\<close>, or a rejection if some \<open>f x\<close> failed (here that of the first
  failing element of \<open>xs\<close>; JavaScript takes the one that is rejected first in time).
\<close>

fun promise_all_map :: "('a \<Rightarrow> ('s, 'b) api) \<Rightarrow> 'a list \<Rightarrow> ('s, 'b list) api" where
  "promise_all_map f [] w = (Inr [], w)"
| "promise_all_map f (x # xs) w =
     (case f x w of
        (r, w') \<Rightarrow>
          (case promise_all_map f xs w' of
             (rs, w'') \<Rightarrow>
               (case r of
                  Inl e \<Rightarrow> (Inl e, w'')
                | Inr y \<Rightarrow> (case rs of Inl e \<Rightarrow> (Inl e, w'') | Inr ys \<Rightarrow> (Inr (y # ys), w'')))))"

subsection \<open>Response envelopes\<close>

text \<open>
  What a handler returns: \<^verbatim>\<open>{content: [{type: "text", text: JSON.stringify(payload, null, 2)}]}\<close>,
  with or without \<^verbatim>\<open>isError: true\<close>. The envelope is kept as the payload object that is
  serialised and the \<^verbatim>\<open>isError\<close> key (\<open>None\<close>: the key is absent).
\<close>

record envelope =
  payload :: json
  isError :: "bool option"

text \<open>The envelope every \<^verbatim>\<open>catch\<close> block ends with.\<close>

definition error_envelope :: "js_error \<Rightarrow> envelope" where
  "error_envelope e =
     \<lparr>payload = obj [(''success'', Some (JBool False)),
                     (''error'', Some (JStr (err_message e))),
                     (''details'', Some (case err_data e of
                                           None \<Rightarrow> JStr ''Unknown error''
                                         | Some d \<Rightarrow> if truthy d then d else JStr ''Unknown error''))],
      isError = Some True\<rparr>"

text \<open>What a handler call may throw: the \<^verbatim>\<open>ZodError\<close> of \<^verbatim>\<open>parse\<close>, or an \<^verbatim>\<open>Error\<close>.\<close>

datatype thrown = ZodError "issue list" | Error string

type_synonym 's outcome = "(thrown + envelope) \<times> call list \<times> 's"

text \<open>
  \<^verbatim>\<open>try { body } catch (error) { handler }\<close> started with no request issued, where the body
  returns an envelope.
\<close>

definition try_catch :: "('s, envelope) api \<Rightarrow> (js_error \<Rightarrow> envelope) \<Rightarrow> 's \<Rightarrow> 's outcome" where
  "try_catch body handler s =
     (case body ([], s) of (Inl e, w) \<Rightarrow> (Inr (handler e), w) | (Inr env, w) \<Rightarrow> (Inr env, w))"

subsection \<open>The handlers\<close>

definition enableGithubPages :: "'s octokit \<Rightarrow> json option \<Rightarrow> 's \<Rightarrow> 's outcome" where
  "enableGithubPages oct args s =
     (case parse EnableGithubPagesSchema args of
        Inl is \<Rightarrow> (Inl (ZodError is), [], s)
      | Inr inp \<Rightarrow>
          (let params = \<lparr>cp_owner = en_owner inp, cp_repo = en_repo inp,
                         cp_source = \<lparr>ps_branch = src_branch (en_source inp),
                                      ps_path = or_default (src_path (en_source inp)) ''/''\<rparr>,
                         cp_build_type = or_default (en_build_type inp) ''legacy''\<rparr>
           in try_catch
                (api_bind (perform (CreatePagesSite params) (createPagesSite oct params))
                   (\<lambda>data. api_return
                      \<lparr>payload = obj [(''success'', Some (JBool True)),
                                      (''message'', Some (JStr ''GitHub Pages enabled successfully'')),
                                      (''url'', map_of data ''html_url''),
                                      (''source'', map_of data ''source''),
                                      (''build_type'', map_of data ''build_type'')],
                       isError = None\<rparr>))
                error_envelope s))"

definition not_enabled_envelope :: envelope where
  "not_enabled_envelope =
     \<lparr>payload = obj [(''success'', Some (JBool False)),
                     (''error'', Some (JStr ''GitHub Pages is not enabled for this repository''))],
      isError = None\<rparr>"

definition getGithubPagesInfo :: "'s octokit \<Rightarrow> json option \<Rightarrow> 's \<Rightarrow> 's outcome" where
  "getGithubPagesInfo oct args s =
     (case parse GetGithubPagesInfoSchema args of
        Inl is \<Rightarrow> (Inl (ZodError is), [], s)
      | Inr inp \<Rightarrow>
          try_catch
            (api_bind (perform (GetPages (rp_owner inp) (rp_repo inp))
                               (getPages oct (rp_owner inp) (rp_repo inp)))
               (\<lambda>data. api_return
                  \<lparr>payload = obj [(''success'', Some (JBool True)),
                                  (''url'', map_of data ''html_url''),
                                  (''status'', map_of data ''status''),
                                  (''cname'', map_of data ''cname''),
                                  (''custom_404'', map_of data ''custom_404''),
                                  (''source'', map_of data ''source''),
                                  (''build_type'', map_of data ''build_type''),
                                  (''public'', map_of data ''public'')],
                   isError = None\<rparr>))
            (\<lambda>error. if err_status error = Some 404 then not_enabled_envelope
                      else error_envelope error)
            s)"

definition no_files_envelope :: envelope where
  "no_files_envelope =
     \<lparr>payload = obj [(''success'', Some (JBool False)),
                     (''error'', Some (JStr ''No files provided for deployment''))],
      isError = Some True\<rparr>"

text \<open>The function mapped over \<^verbatim>\<open>files\<close>: one blob request, answered by one tree entry.\<close>

definition blob_item :: "'s octokit \<Rightarrow> string \<Rightarrow> string \<Rightarrow> file_in \<Rightarrow> ('s, tree_item) api" where
  "blob_item oct owner repo file =
     (let encoding = (if fl_encoding file = Some ''base64'' then ''base64'' else ''utf-8'')
      in api_bind (perform (CreateBlob owner repo (fl_content file) encoding)
                           (createBlob oct owner repo (fl_content file) encoding))
           (\<lambda>sha. api_return \<lparr>ti_path = fl_path file, ti_mode = ''100644'',
                               ti_type = ''blob'', ti_sha = sha\<rparr>))"

definition deployToGithubPages :: "'s octokit \<Rightarrow> json option \<Rightarrow> 's \<Rightarrow> 's outcome" where
  "deployToGithubPages oct args s =
     (case parse DeployToGithubPagesSchema args of
        Inl is \<Rightarrow> (Inl (ZodError is), [], s)
      | Inr inp \<Rightarrow>
          (let owner = dp_owner inp; repo = dp_repo inp; branch = dp_branch inp
           in try_catch
                (case dp_files inp of
                   None \<Rightarrow> api_return no_files_envelope
                 | Some files \<Rightarrow>
                     if length files = 0 then api_return no_files_envelope
                     else
                       api_bind (perform (GetRef owner repo (''heads/'' @ branch))
                                         (getRef oct owner repo (''heads/'' @ branch)))
                       (\<lambda>latestCommitSha.
                       api_bind (perform (GetCommit owner repo latestCommitSha)
                                         (getCommit oct owner repo latestCommitSha))
                       (\<lambda>baseTreeSha.
                       api_bind (promise_all_map (blob_item oct owner repo) files)
                       (\<lambda>treeItems.
                       api_bind (perform (CreateTree owner repo treeItems baseTreeSha)
                                         (createTree oct owner repo treeItems baseTreeSha))
                       (\<lambda>treeSha.
                       let message = or_default (dp_message inp) ''Deploy to GitHub Pages'' in
                       api_bind (perform (CreateCommit owner repo message treeSha [latestCommitSha])
                                         (createCommit oct owner repo message treeSha
                                            [latestCommitSha]))
                       (\<lambda>newCommitSha.
                       api_bind (perform (UpdateRef owner repo (''heads/'' @ branch) newCommitSha)
                                         (updateRef oct owner repo (''heads/'' @ branch)
                                            newCommitSha))
                       (\<lambda>_. api_return
                          \<lparr>payload = obj [(''success'', Some (JBool True)),
                                          (''message'', Some (JStr ''Files deployed successfully'')),
                                          (''commit_sha'', Some (JStr newCommitSha)),
                                          (''files_deployed'', Some (JNum (int (length files))))],
                           isError = None\<rparr>)))))))
                error_envelope s))"

definition disableGithubPages :: "'s octokit \<Rightarrow> json option \<Rightarrow> 's \<Rightarrow> 's outcome" where
  "disableGithubPages oct args s =
     (case parse DisableGithubPagesSchema args of
        Inl is \<Rightarrow> (Inl (ZodError is), [], s)
      | Inr inp \<Rightarrow>
          try_catch
            (api_bind (perform (DeletePagesSite (rp_owner inp) (rp_repo inp))
                               (deletePagesSite oct (rp_owner inp) (rp_repo inp)))
               (\<lambda>_. api_return
                  \<lparr>payload = obj [(''success'', Some (JBool True)),
                                  (''message'', Some (JStr ''GitHub Pages disabled successfully''))],
                   isError = None\<rparr>))
            error_envelope s)"

text \<open>
  The \<^verbatim>\<open>source\<close> of \<^verbatim>\<open>updateParams\<close>: \<^verbatim>\<open>source.path || "/"\<close>, checked against the two
  literals; the \<^verbatim>\<open>Error\<close> thrown otherwise has no \<^verbatim>\<open>status\<close> and no \<^verbatim>\<open>response\<close>.
\<close>

definition update_source :: "source_in \<Rightarrow> ('s, pages_source) api" where
  "update_source source =
     (let path = or_default (src_path source) ''/''
      in if path \<noteq> ''/'' \<and> path \<noteq> ''/docs''
         then api_throw \<lparr>err_status = None,
                         err_message = ''Invalid path: must be '' @ quoted ''/'' @ '' or ''
                                       @ quoted ''/docs'',
                         err_data = None\<rparr>
         else api_return \<lparr>ps_branch = src_branch source, ps_path = path\<rparr>)"

text \<open>
  Reading a property of \<^verbatim>\<open>undefined\<close> throws a \<^verbatim>\<open>TypeError\<close>; the message is that of V8, the
  engine of Node.js. The error has no \<^verbatim>\<open>status\<close> and no \<^verbatim>\<open>response\<close>.
\<close>

definition undefined_property_error :: "string \<Rightarrow> js_error" where
  "undefined_property_error k =
     \<lparr>err_status = None,
      err_message = ''Cannot read properties of undefined (reading '' @ quoted k @ '')'',
      err_data = None\<rparr>"

text \<open>
  After the update request is answered, the payload is built from \<^verbatim>\<open>response.data\<close>; the first
  property read is \<^verbatim>\<open>data.html_url\<close>, which throws inside the \<^verbatim>\<open>try\<close> block when the
  response has no body.
\<close>

definition updateGithubPagesConfig :: "'s octokit \<Rightarrow> json option \<Rightarrow> 's \<Rightarrow> 's outcome" where
  "updateGithubPagesConfig oct args s =
     (case parse UpdateGithubPagesConfigSchema args of
        Inl is \<Rightarrow> (Inl (ZodError is), [], s)
      | Inr inp \<Rightarrow>
          try_catch
            (api_bind (case up_source inp of
                         None \<Rightarrow> api_return None
                       | Some source \<Rightarrow> api_bind (update_source source) (\<lambda>so. api_return (Some so)))
             (\<lambda>source'.
             let updateParams =
                   \<lparr>upd_owner = up_owner inp, upd_repo = up_repo inp,
                    upd_source = source',
                    upd_build_type = (case up_build_type inp of
                                        None \<Rightarrow> None
                                      | Some b \<Rightarrow> if b = [] then None else Some b),
                    upd_cname = (if up_cname inp \<noteq> None then up_cname inp else None)\<rparr>
             in api_bind (perform (UpdateInformationAboutPagesSite updateParams)
                                  (updateInformationAboutPagesSite oct updateParams))
                  (\<lambda>response_data.
                     case response_data of
                       None \<Rightarrow> api_throw (undefined_property_error ''html_url'')
                     | Some data \<Rightarrow>
                         api_return
                           \<lparr>payload =
                              obj [(''success'', Some (JBool True)),
                                   (''message'',
                                    Some (JStr ''GitHub Pages configuration updated successfully'')),
                                   (''url'', map_of data ''html_url''),
                                   (''source'', map_of data ''source''),
                                   (''build_type'', map_of data ''build_type''),
                                   (''cname'', map_of data ''cname'')],
                            isError = None\<rparr>)))
            error_envelope s)"

subsection \<open>The tool-call request handler\<close>

text \<open>\<^verbatim>\<open>`${e.path.join(".")}: ${e.message}`\<close>\<close>

definition render_seg :: "seg \<Rightarrow> string" where
  "render_seg g = (case g of Key k \<Rightarrow> k | Idx i \<Rightarrow> decimal i)"

definition render_issue :: "issue \<Rightarrow> string" where
  "render_issue e = join ''.'' (map render_seg (issue_path e)) @ '': '' @ issue_message e"

definition invalid_arguments :: "issue list \<Rightarrow> string" where
  "invalid_arguments errors = ''Invalid arguments: '' @ join '', '' (map render_issue errors)"

text \<open>The \<^verbatim>\<open>switch (name)\<close> of the handler registered for \<^verbatim>\<open>CallToolRequestSchema\<close>.\<close>

definition route :: "'s octokit \<Rightarrow> string \<Rightarrow> json option \<Rightarrow> 's \<Rightarrow> 's outcome" where
  "route oct name args s =
     (if name = ''enable_github_pages'' then enableGithubPages oct args s
      else if name = ''get_github_pages_info'' then getGithubPagesInfo oct args s
      else if name = ''deploy_to_github_pages'' then deployToGithubPages oct args s
      else if name = ''disable_github_pages'' then disableGithubPages oct args s
      else if name = ''update_github_pages_config'' then updateGithubPagesConfig oct args s
      else (Inl (Error (''Unknown tool: '' @ name)), [], s))"

text \<open>
  The handler registered for \<^verbatim>\<open>CallToolRequestSchema\<close> in \<^verbatim>\<open>setupHandlers\<close>, on
  \<^verbatim>\<open>request.params = {name, arguments}\<close>: a \<^verbatim>\<open>ZodError\<close> is thrown again as an \<^verbatim>\<open>Error\<close>
  whose message lists the issues, anything else thrown is thrown again as it is.
\<close>

definition dispatch :: "'s octokit \<Rightarrow> string \<Rightarrow> json option \<Rightarrow> 's \<Rightarrow> 's outcome" where
  "dispatch oct name args s =
     (case route oct name args s of
        (Inl (ZodError errors), w) \<Rightarrow> (Inl (Error (invalid_arguments errors)), w)
      | (Inl error, w) \<Rightarrow> (Inl error, w)
      | (Inr env, w) \<Rightarrow> (Inr env, w))"

subsection \<open>An upstream for concrete runs\<close>

text \<open>
  A stand-in for the upstream, used to run the handlers on concrete inputs. Its state
  counts the requests served. The repository has no Pages site yet: reading the Pages
  settings fails with status 404 and creating the site answers with the configuration
  asked for; an update is answered with a body that has none of the keys read. The git calls answer fixed SHAs, a new
  blob the number of the request.
\<close>

definition stub_octokit :: "nat octokit" where
  "stub_octokit =
     \<lparr>createPagesSite = (\<lambda>p n.
        (Inr [(''html_url'', JStr ''https://o.github.io/r/''),
              (''source'', JObj [(''branch'', JStr (ps_branch (cp_source p))),
                                 (''path'', JStr (ps_path (cp_source p)))]),
              (''build_type'', JStr (cp_build_type p))], Suc n)),
      getPages = (\<lambda>owner repo n.
        (Inl \<lparr>err_status = Some 404, err_message = ''Not Found'',
              err_data = Some (JObj [(''message'', JStr ''Not Found'')])\<rparr>, Suc n)),
      deletePagesSite = (\<lambda>owner repo n. (Inr (), Suc n)),
      updateInformationAboutPagesSite = (\<lambda>p n. (Inr (Some []), Suc n)),
      getRef = (\<lambda>owner repo ref n. (Inr ''c0'', Suc n)),
      getCommit = (\<lambda>owner repo sha n. (Inr ''t0'', Suc n)),
      createBlob = (\<lambda>owner repo content encoding n. (Inr (''b'' @ decimal n), Suc n)),
      createTree = (\<lambda>owner repo tree base n. (Inr ''t1'', Suc n)),
      createCommit = (\<lambda>owner repo message tree parents n. (Inr ''c1'', Suc n)),
      updateRef = (\<lambda>owner repo ref sha n. (Inr (), Suc n))\<rparr>"

subsection \<open>The declared tools and their validation\<close>

text \<open>
  \<^verbatim>\<open>getTools()\<close>: the name of each declared tool with the \<^verbatim>\<open>required\<close> list of its
  \<^verbatim>\<open>inputSchema\<close> (descriptions and property declarations are left out).
\<close>

definition getTools :: "(string \<times> string list) list" where
  "getTools =
     [(''enable_github_pages'', [''owner'', ''repo'', ''source'']),
      (''get_github_pages_info'', [''owner'', ''repo'']),
      (''deploy_to_github_pages'', [''owner'', ''repo'', ''branch'']),
      (''disable_github_pages'', [''owner'', ''repo'']),
      (''update_github_pages_config'', [''owner'', ''repo''])]"

definition tool_names :: "string list" where
  "tool_names = map fst getTools"


definition failure :: "'a parsed \<Rightarrow> issue list option" where
  "failure r = (case r of Inl is \<Rightarrow> Some is | Inr x \<Rightarrow> None)"

text \<open>
  The issues of the \<^verbatim>\<open>ZodError\<close> that the \<^verbatim>\<open>parse\<close> at the head of the handler of tool
  \<open>name\<close> throws on \<open>args\<close>; \<open>None\<close> when the arguments pass, or no handler has that name.
\<close>

definition validation_failure :: "string \<Rightarrow> json option \<Rightarrow> issue list option" where
  "validation_failure name args =
     (if name = ''enable_github_pages'' then failure (parse EnableGithubPagesSchema args)
      else if name = ''get_github_pages_info'' then failure (parse GetGithubPagesInfoSchema args)
      else if name = ''deploy_to_github_pages'' then failure (parse DeployToGithubPagesSchema args)
      else if name = ''disable_github_pages'' then failure (parse DisableGithubPagesSchema args)
      else if name = ''update_github_pages_config''
      then failure (parse UpdateGithubPagesConfigSchema args)
      else None)"

subsection \<open>Sample arguments\<close>

definition args_repo :: "json option" where
  "args_repo = Some (JObj [(''owner'', JStr ''o''), (''repo'', JStr ''r'')])"

definition args_deploy_no_files :: "json option" where
  "args_deploy_no_files =
     Some (JObj [(''owner'', JStr ''o''), (''repo'', JStr ''r''), (''branch'', JStr ''gh-pages''),
                 (''files'', JArr [])])"

definition args_deploy_two_files :: "json option" where
  "args_deploy_two_files =
     Some (JObj [(''owner'', JStr ''o''), (''repo'', JStr ''r''), (''branch'', JStr ''gh-pages''),
                 (''message'', JStr ''Update homepage''),
                 (''files'', JArr [JObj [(''path'', JStr ''a.txt''), (''content'', JStr ''x'')],
                                   JObj [(''path'', JStr ''b.txt''), (''content'', JStr ''eA==''),
                                         (''encoding'', JStr ''base64'')]])])"

definition args_deploy_empty_message :: "json option" where
  "args_deploy_empty_message =
     Some (JObj [(''owner'', JStr ''o''), (''repo'', JStr ''r''), (''branch'', JStr ''gh-pages''),
                 (''message'', JStr []),
                 (''files'', JArr [JObj [(''path'', JStr ''a.txt''), (''content'', JStr ''x'')]])])"

definition args_enable_branch_only :: "json option" where
  "args_enable_branch_only =
     Some (JObj [(''owner'', JStr ''o''), (''repo'', JStr ''r''),
                 (''source'', JObj [(''branch'', JStr ''main'')])])"

definition args_source_bad_path :: "json option" where
  "args_source_bad_path =
     Some (JObj [(''owner'', JStr ''o''), (''repo'', JStr ''r''),
                 (''source'', JObj [(''branch'', JStr ''main''), (''path'', JStr ''/site'')])])"

definition args_update_cname_empty :: "json option" where
  "args_update_cname_empty =
     Some (JObj [(''owner'', JStr ''o''), (''repo'', JStr ''r''), (''cname'', JStr [])])"

definition args_update_cname_null :: "json option" where
  "args_update_cname_null =
     Some (JObj [(''owner'', JStr ''o''), (''repo'', JStr ''r''), (''cname'', JNull)])"

section \<open>Properties\<close>

subsection \<open>Parsing\<close>

lemma issues_of_simps [simp]: "issues_of (Inl is) = is" "issues_of (Inr x) = []"
  by (simp_all add: issues_of_def)

lemma issues_of_ap: "issues_of (ap f x) = issues_of f @ issues_of x"
  by (cases f; cases x) (simp_all add: ap_def)

lemma ap_Inr_iff: "ap f x = Inr y \<longleftrightarrow> (\<exists>g a. f = Inr g \<and> x = Inr a \<and> y = g a)"
  by (cases f; cases x) (auto simp: ap_def)

lemma ap_Inl_iff: "ap f x = Inl is \<longleftrightarrow> (is = issues_of f @ issues_of x \<and> (isl f \<or> isl x))"
  by (cases f; cases x) (auto simp: ap_def)

lemma failure_simps [simp]: "failure (Inl is) = Some is" "failure (Inr x) = None"
  by (simp_all add: failure_def)

lemma failure_Some_iff: "failure r = Some is \<longleftrightarrow> r = Inl is"
  by (cases r) simp_all

lemma failure_None_iff: "failure r = None \<longleftrightarrow> (\<exists>x. r = Inr x)"
  by (cases r) simp_all

subsection \<open>Handlers and routing\<close>

lemma try_catch_returns: "\<exists>env w. try_catch body h s = (Inr env, w)"
  by (simp add: try_catch_def split: prod.splits sum.splits)

lemma try_catch_perform:
  "try_catch (api_bind (perform c m) (\<lambda>x. api_return (k x))) h s =
     (case m s of (Inl e, s') \<Rightarrow> (Inr (h e), [c], s') | (Inr x, s') \<Rightarrow> (Inr (k x), [c], s'))"
  by (simp add: try_catch_def api_bind_def perform_def api_return_def split: prod.splits sum.splits)

lemma handler_cases:
  assumes "\<And>inp. \<exists>env w. k inp = (Inr env, w)"
  shows "(\<exists>iss. r = Inl iss \<and> (case r of Inl is \<Rightarrow> (Inl (ZodError is), [], s) | Inr inp \<Rightarrow> k inp) = (Inl (ZodError iss), [], s))
       \<or> (\<exists>inp env w. r = Inr inp \<and> (case r of Inl is \<Rightarrow> (Inl (ZodError is), [], s) | Inr inp \<Rightarrow> k inp) = (Inr env, w))"
  using assms by (cases r) auto

lemma enable_cases:
  "(\<exists>iss. parse EnableGithubPagesSchema args = Inl iss \<and> enableGithubPages oct args s = (Inl (ZodError iss), [], s))
   \<or> (\<exists>inp env w. parse EnableGithubPagesSchema args = Inr inp \<and> enableGithubPages oct args s = (Inr env, w))"
  unfolding enableGithubPages_def Let_def by (rule handler_cases) (rule try_catch_returns)

lemma get_info_cases:
  "(\<exists>iss. parse GetGithubPagesInfoSchema args = Inl iss \<and> getGithubPagesInfo oct args s = (Inl (ZodError iss), [], s))
   \<or> (\<exists>inp env w. parse GetGithubPagesInfoSchema args = Inr inp \<and> getGithubPagesInfo oct args s = (Inr env, w))"
  unfolding getGithubPagesInfo_def Let_def by (rule handler_cases) (rule try_catch_returns)

lemma deploy_cases:
  "(\<exists>iss. parse DeployToGithubPagesSchema args = Inl iss \<and> deployToGithubPages oct args s = (Inl (ZodError iss), [], s))
   \<or> (\<exists>inp env w. parse DeployToGithubPagesSchema args = Inr inp \<and> deployToGithubPages oct args s = (Inr env, w))"
  unfolding deployToGithubPages_def Let_def by (rule handler_cases) (rule try_catch_returns)

lemma disable_cases:
  "(\<exists>iss. parse DisableGithubPagesSchema args = Inl iss \<and> disableGithubPages oct args s = (Inl (ZodError iss), [], s))
   \<or> (\<exists>inp env w. parse DisableGithubPagesSchema args = Inr inp \<and> disableGithubPages oct args s = (Inr env, w))"
  unfolding disableGithubPages_def Let_def by (rule handler_cases) (rule try_catch_returns)

lemma update_cases:
  "(\<exists>iss. parse UpdateGithubPagesConfigSchema args = Inl iss \<and> updateGithubPagesConfig oct args s = (Inl (ZodError iss), [], s))
   \<or> (\<exists>inp env w. parse UpdateGithubPagesConfigSchema args = Inr inp \<and> updateGithubPagesConfig oct args s = (Inr env, w))"
  unfolding updateGithubPagesConfig_def Let_def by (rule handler_cases) (rule try_catch_returns)

lemma tool_names_cases:
  "name \<in> set tool_names \<longleftrightarrow>
     name = ''enable_github_pages'' \<or> name = ''get_github_pages_info'' \<or>
     name = ''deploy_to_github_pages'' \<or> name = ''disable_github_pages'' \<or>
     name = ''update_github_pages_config''"
  by (simp add: tool_names_def getTools_def)

lemma route_simps:
  "route oct ''enable_github_pages'' args s = enableGithubPages oct args s"
  "route oct ''get_github_pages_info'' args s = getGithubPagesInfo oct args s"
  "route oct ''deploy_to_github_pages'' args s = deployToGithubPages oct args s"
  "route oct ''disable_github_pages'' args s = disableGithubPages oct args s"
  "route oct ''update_github_pages_config'' args s = updateGithubPagesConfig oct args s"
  by (simp_all add: route_def)

lemma validation_failure_simps:
  "validation_failure ''enable_github_pages'' args = failure (parse EnableGithubPagesSchema args)"
  "validation_failure ''get_github_pages_info'' args = failure (parse GetGithubPagesInfoSchema args)"
  "validation_failure ''deploy_to_github_pages'' args = failure (parse DeployToGithubPagesSchema args)"
  "validation_failure ''disable_github_pages'' args = failure (parse DisableGithubPagesSchema args)"
  "validation_failure ''update_github_pages_config'' args = failure (parse UpdateGithubPagesConfigSchema args)"
  by (simp_all add: validation_failure_def)

lemma cases_failure:
  assumes "(\<exists>iss. r = Inl iss \<and> h = (Inl (ZodError iss), [], s)) \<or> (\<exists>inp env w. r = Inr inp \<and> h = (Inr env, w))"
  shows "(\<exists>iss. failure r = Some iss \<and> h = (Inl (ZodError iss), [], s))
       \<or> (failure r = None \<and> (\<exists>env w. h = (Inr env, w)))"
  using assms by (cases r) auto

lemma route_cases:
  assumes "name \<in> set tool_names"
  shows "(\<exists>iss. validation_failure name args = Some iss \<and> route oct name args s = (Inl (ZodError iss), [], s))
       \<or> (validation_failure name args = None \<and> (\<exists>env w. route oct name args s = (Inr env, w)))"
proof -
  have "name = ''enable_github_pages'' \<or> name = ''get_github_pages_info'' \<or>
     name = ''deploy_to_github_pages'' \<or> name = ''disable_github_pages'' \<or>
     name = ''update_github_pages_config''"
    using assms by (simp only: tool_names_cases)
  then show ?thesis
  proof (elim disjE)
    assume 1: "name = ''enable_github_pages''"
    show ?thesis unfolding 1 route_simps validation_failure_simps
      by (rule cases_failure) (rule enable_cases)
  next
    assume 2: "name = ''get_github_pages_info''"
    show ?thesis unfolding 2 route_simps validation_failure_simps
      by (rule cases_failure) (rule get_info_cases)
  next
    assume 3: "name = ''deploy_to_github_pages''"
    show ?thesis unfolding 3 route_simps validation_failure_simps
      by (rule cases_failure) (rule deploy_cases)
  next
    assume 4: "name = ''disable_github_pages''"
    show ?thesis unfolding 4 route_simps validation_failure_simps
      by (rule cases_failure) (rule disable_cases)
  next
    assume 5: "name = ''update_github_pages_config''"
    show ?thesis unfolding 5 route_simps validation_failure_simps
      by (rule cases_failure) (rule update_cases)
  qed
qed

lemma route_unknown:
  assumes "name \<notin> set tool_names"
  shows "route oct name args s = (Inl (Error (''Unknown tool: '' @ name)), [], s)"
  using assms unfolding tool_names_cases by (simp add: route_def)

lemma validation_failure_unknown:
  assumes "name \<notin> set tool_names"
  shows "validation_failure name args = None"
  using assms unfolding tool_names_cases by (simp add: validation_failure_def)

lemma dispatch_validation_failure:
  assumes "name \<in> set tool_names" and "validation_failure name args = Some iss"
  shows "dispatch oct name args s = (Inl (Error (invalid_arguments iss)), [], s)"
  using route_cases [OF assms(1), of args oct s] assms(2) by (auto simp: dispatch_def)

lemma dispatch_valid:
  assumes "name \<in> set tool_names" and "validation_failure name args = None"
  shows "\<exists>env w. dispatch oct name args s = (Inr env, w) \<and> route oct name args s = (Inr env, w)"
  using route_cases [OF assms(1), of args oct s] assms(2) by (auto simp: dispatch_def)

lemma dispatch_unknown:
  assumes "name \<notin> set tool_names"
  shows "dispatch oct name args s = (Inl (Error (''Unknown tool: '' @ name)), [], s)"
  unfolding dispatch_def route_unknown [OF assms] by simp

subsection \<open>Validation failures\<close>


lemma failure_issues_of: "issues_of r \<noteq> [] \<Longrightarrow> failure r = Some (issues_of r)"
  by (cases r) simp_all




lemma issues_of_EnableGithubPagesSchema:
  "issues_of (EnableGithubPagesSchema p (Some (JObj kvs))) =
     issues_of (z_field z_string p kvs ''owner'') @ issues_of (z_field z_string p kvs ''repo'')
     @ issues_of (z_field SourceSchema p kvs ''source'')
     @ issues_of (z_field (z_optional (z_enum [''legacy'', ''workflow''])) p kvs ''build_type'')"
  by (simp add: EnableGithubPagesSchema_def issues_of_ap)



lemma issues_of_UpdateGithubPagesConfigSchema:
  "issues_of (UpdateGithubPagesConfigSchema p (Some (JObj kvs))) =
     issues_of (z_field z_string p kvs ''owner'') @ issues_of (z_field z_string p kvs ''repo'')
     @ issues_of (z_field (z_optional SourceSchema) p kvs ''source'')
     @ issues_of (z_field (z_optional (z_enum [''legacy'', ''workflow''])) p kvs ''build_type'')
     @ issues_of (z_field (z_optional z_string) p kvs ''cname'')"
  by (simp add: UpdateGithubPagesConfigSchema_def issues_of_ap)




lemma dispatch_envelope:
  "route oct name args s = (Inr env, w) \<Longrightarrow> dispatch oct name args s = (Inr env, w)"
  by (simp add: dispatch_def)

subsection \<open>What a successful parse says about the raw arguments\<close>

lemma z_string_Inr_iff: "z_field z_string p kvs k = Inr v \<longleftrightarrow> map_of kvs k = Some (JStr v)"
  by (auto simp: z_field_def z_string_def split: option.splits json.splits)

lemma z_optional_string_Inr_iff:
  "z_field (z_optional z_string) p kvs k = Inr v \<longleftrightarrow>
     (map_of kvs k = None \<and> v = None) \<or> (\<exists>x. map_of kvs k = Some (JStr x) \<and> v = Some x)"
  by (auto simp: z_field_def z_optional_def z_string_def split: option.splits json.splits)

lemma z_optional_enum_Inr_iff:
  "z_field (z_optional (z_enum options)) p kvs k = Inr v \<longleftrightarrow>
     (map_of kvs k = None \<and> v = None)
     \<or> (\<exists>x. map_of kvs k = Some (JStr x) \<and> x \<in> set options \<and> v = Some x)"
  by (auto simp: z_field_def z_optional_def z_enum_def split: option.splits json.splits)

lemma SourceSchema_Inr:
  assumes "SourceSchema p v = Inr so"
  shows "\<exists>skvs. v = Some (JObj skvs) \<and> map_of skvs ''branch'' = Some (JStr (src_branch so))
          \<and> ((map_of skvs ''path'' = None \<and> src_path so = None)
              \<or> (map_of skvs ''path'' = Some (JStr ''/'') \<and> src_path so = Some ''/'')
              \<or> (map_of skvs ''path'' = Some (JStr ''/docs'') \<and> src_path so = Some ''/docs''))"
proof -
  obtain skvs where v: "v = Some (JObj skvs)"
    using assms by (auto simp: SourceSchema_def split: option.splits json.splits)
  from assms obtain b pa where
    b: "z_field z_string p skvs ''branch'' = Inr b"
    and pa: "z_field (z_optional (z_enum [''/'', ''/docs''])) p skvs ''path'' = Inr pa"
    and so: "so = \<lparr>src_branch = b, src_path = pa\<rparr>"
    unfolding v SourceSchema_def by (auto simp: ap_Inr_iff)
  from b have "map_of skvs ''branch'' = Some (JStr (src_branch so))"
    by (simp add: z_string_Inr_iff so)
  moreover from pa have "(map_of skvs ''path'' = None \<and> src_path so = None)
              \<or> (map_of skvs ''path'' = Some (JStr ''/'') \<and> src_path so = Some ''/'')
              \<or> (map_of skvs ''path'' = Some (JStr ''/docs'') \<and> src_path so = Some ''/docs'')"
    unfolding z_optional_enum_Inr_iff so by auto
  ultimately show ?thesis using v by blast
qed

lemma or_default_path:
  assumes "pa = None \<or> pa = Some ''/'' \<or> pa = Some ''/docs''"
  shows "or_default pa ''/'' = (case pa of None \<Rightarrow> ''/'' | Some x \<Rightarrow> x)"
    and "or_default pa ''/'' = ''/'' \<or> or_default pa ''/'' = ''/docs''"
  using assms by (auto simp: or_default_def)

lemma or_default_build_type:
  assumes "bt = None \<or> bt = Some ''legacy'' \<or> bt = Some ''workflow''"
  shows "or_default bt ''legacy'' = (case bt of None \<Rightarrow> ''legacy'' | Some x \<Rightarrow> x)"
  using assms by (auto simp: or_default_def)

lemma EnableGithubPagesSchema_Inr:
  assumes "EnableGithubPagesSchema p (Some (JObj kvs)) = Inr inp"
  shows "map_of kvs ''owner'' = Some (JStr (en_owner inp))"
    and "map_of kvs ''repo'' = Some (JStr (en_repo inp))"
    and "SourceSchema (p @ [Key ''source'']) (map_of kvs ''source'') = Inr (en_source inp)"
    and "(map_of kvs ''build_type'' = None \<and> en_build_type inp = None)
         \<or> (map_of kvs ''build_type'' = Some (JStr ''legacy'') \<and> en_build_type inp = Some ''legacy'')
         \<or> (map_of kvs ''build_type'' = Some (JStr ''workflow'') \<and> en_build_type inp = Some ''workflow'')"
proof -
  from assms obtain ow re so bt where
    ow: "z_field z_string p kvs ''owner'' = Inr ow"
    and re: "z_field z_string p kvs ''repo'' = Inr re"
    and so: "z_field SourceSchema p kvs ''source'' = Inr so"
    and bt: "z_field (z_optional (z_enum [''legacy'', ''workflow''])) p kvs ''build_type'' = Inr bt"
    and inp: "inp = \<lparr>en_owner = ow, en_repo = re, en_source = so, en_build_type = bt\<rparr>"
    unfolding EnableGithubPagesSchema_def by (auto simp: ap_Inr_iff)
  show "map_of kvs ''owner'' = Some (JStr (en_owner inp))"
    using ow by (simp add: z_string_Inr_iff inp)
  show "map_of kvs ''repo'' = Some (JStr (en_repo inp))"
    using re by (simp add: z_string_Inr_iff inp)
  show "SourceSchema (p @ [Key ''source'']) (map_of kvs ''source'') = Inr (en_source inp)"
    using so by (simp add: z_field_def inp)
  show "(map_of kvs ''build_type'' = None \<and> en_build_type inp = None)
         \<or> (map_of kvs ''build_type'' = Some (JStr ''legacy'') \<and> en_build_type inp = Some ''legacy'')
         \<or> (map_of kvs ''build_type'' = Some (JStr ''workflow'') \<and> en_build_type inp = Some ''workflow'')"
    using bt unfolding z_optional_enum_Inr_iff inp by auto
qed

lemma snd_dispatch: "snd (dispatch oct name args s) = snd (route oct name args s)"
  by (simp add: dispatch_def split: prod.splits sum.splits thrown.splits)

lemma dispatch_returned:
  assumes "\<not> isl (fst (route oct name args s))"
  shows "dispatch oct name args s = route oct name args s"
  using assms by (cases "route oct name args s") (auto simp: dispatch_def split: sum.splits)

lemma enable_run:
  assumes "parse EnableGithubPagesSchema args = Inr inp"
  shows "enableGithubPages oct args s =
     (let params = \<lparr>cp_owner = en_owner inp, cp_repo = en_repo inp,
                     cp_source = \<lparr>ps_branch = src_branch (en_source inp),
                                  ps_path = or_default (src_path (en_source inp)) ''/''\<rparr>,
                     cp_build_type = or_default (en_build_type inp) ''legacy''\<rparr>
      in case createPagesSite oct params s of
           (Inl e, s') \<Rightarrow> (Inr (error_envelope e), [CreatePagesSite params], s')
         | (Inr data, s') \<Rightarrow>
             (Inr \<lparr>payload = obj [(''success'', Some (JBool True)),
                                   (''message'', Some (JStr ''GitHub Pages enabled successfully'')),
                                   (''url'', map_of data ''html_url''),
                                   (''source'', map_of data ''source''),
                                   (''build_type'', map_of data ''build_type'')],
                    isError = None\<rparr>,
              [CreatePagesSite params], s'))"
  using assms by (simp add: enableGithubPages_def Let_def try_catch_perform)

lemma EnableGithubPagesSchema_object:
  assumes "parse EnableGithubPagesSchema args = Inr inp"
  shows "\<exists>kvs. args = Some (JObj kvs)"
  using assms by (auto simp: parse_def EnableGithubPagesSchema_def split: option.splits json.splits)

subsection \<open>The update handler\<close>

lemma z_optional_SourceSchema_Inr_iff:
  "z_field (z_optional SourceSchema) p kvs k = Inr v \<longleftrightarrow>
     (map_of kvs k = None \<and> v = None)
     \<or> (\<exists>so. map_of kvs k \<noteq> None \<and> SourceSchema (p @ [Key k]) (map_of kvs k) = Inr so \<and> v = Some so)"
  by (cases "map_of kvs k"; cases "SourceSchema (p @ [Key k]) (map_of kvs k)")
     (auto simp: z_field_def z_optional_def)

lemma UpdateGithubPagesConfigSchema_Inr:
  assumes "UpdateGithubPagesConfigSchema p (Some (JObj kvs)) = Inr inp"
  shows "map_of kvs ''owner'' = Some (JStr (up_owner inp))"
    and "map_of kvs ''repo'' = Some (JStr (up_repo inp))"
    and "(map_of kvs ''source'' = None \<and> up_source inp = None)
         \<or> (\<exists>so. map_of kvs ''source'' \<noteq> None
                 \<and> SourceSchema (p @ [Key ''source'']) (map_of kvs ''source'') = Inr so
                 \<and> up_source inp = Some so)"
    and "(map_of kvs ''build_type'' = None \<and> up_build_type inp = None)
         \<or> (map_of kvs ''build_type'' = Some (JStr ''legacy'') \<and> up_build_type inp = Some ''legacy'')
         \<or> (map_of kvs ''build_type'' = Some (JStr ''workflow'') \<and> up_build_type inp = Some ''workflow'')"
    and "(map_of kvs ''cname'' = None \<and> up_cname inp = None)
         \<or> (\<exists>x. map_of kvs ''cname'' = Some (JStr x) \<and> up_cname inp = Some x)"
proof -
  from assms obtain ow re so bt cn where
    ow: "z_field z_string p kvs ''owner'' = Inr ow"
    and re: "z_field z_string p kvs ''repo'' = Inr re"
    and so: "z_field (z_optional SourceSchema) p kvs ''source'' = Inr so"
    and bt: "z_field (z_optional (z_enum [''legacy'', ''workflow''])) p kvs ''build_type'' = Inr bt"
    and cn: "z_field (z_optional z_string) p kvs ''cname'' = Inr cn"
    and inp: "inp = \<lparr>up_owner = ow, up_repo = re, up_source = so, up_build_type = bt, up_cname = cn\<rparr>"
    unfolding UpdateGithubPagesConfigSchema_def by (auto simp: ap_Inr_iff)
  show "map_of kvs ''owner'' = Some (JStr (up_owner inp))"
    using ow by (simp add: z_string_Inr_iff inp)
  show "map_of kvs ''repo'' = Some (JStr (up_repo inp))"
    using re by (simp add: z_string_Inr_iff inp)
  show "(map_of kvs ''source'' = None \<and> up_source inp = None)
         \<or> (\<exists>so. map_of kvs ''source'' \<noteq> None
                 \<and> SourceSchema (p @ [Key ''source'']) (map_of kvs ''source'') = Inr so
                 \<and> up_source inp = Some so)"
    using so unfolding z_optional_SourceSchema_Inr_iff inp by simp
  show "(map_of kvs ''build_type'' = None \<and> up_build_type inp = None)
         \<or> (map_of kvs ''build_type'' = Some (JStr ''legacy'') \<and> up_build_type inp = Some ''legacy'')
         \<or> (map_of kvs ''build_type'' = Some (JStr ''workflow'') \<and> up_build_type inp = Some ''workflow'')"
    using bt unfolding z_optional_enum_Inr_iff inp by auto
  show "(map_of kvs ''cname'' = None \<and> up_cname inp = None)
         \<or> (\<exists>x. map_of kvs ''cname'' = Some (JStr x) \<and> up_cname inp = Some x)"
    using cn unfolding z_optional_string_Inr_iff inp by simp
qed

lemma UpdateGithubPagesConfigSchema_object:
  assumes "parse UpdateGithubPagesConfigSchema args = Inr inp"
  shows "\<exists>kvs. args = Some (JObj kvs)"
  using assms
  by (auto simp: parse_def UpdateGithubPagesConfigSchema_def split: option.splits json.splits)

lemma api_bind_return: "api_bind (api_return x) f = f x"
  by (simp add: api_bind_def api_return_def)

lemma update_source_ok:
  assumes "src_path so = None \<or> src_path so = Some ''/'' \<or> src_path so = Some ''/docs''"
  shows "update_source so =
           api_return \<lparr>ps_branch = src_branch so,
                       ps_path = (case src_path so of None \<Rightarrow> ''/'' | Some x \<Rightarrow> x)\<rparr>"
  using or_default_path [OF assms] by (auto simp: update_source_def Let_def)

lemma update_run:
  assumes "parse UpdateGithubPagesConfigSchema args = Inr inp"
  shows "updateGithubPagesConfig oct args s =
     (let p = \<lparr>upd_owner = up_owner inp, upd_repo = up_repo inp,
                upd_source = map_option
                               (\<lambda>so. \<lparr>ps_branch = src_branch so,
                                      ps_path = (case src_path so of None \<Rightarrow> ''/'' | Some x \<Rightarrow> x)\<rparr>)
                               (up_source inp),
                upd_build_type = up_build_type inp,
                upd_cname = up_cname inp\<rparr>
      in case updateInformationAboutPagesSite oct p s of
           (Inl e, s') \<Rightarrow> (Inr (error_envelope e), [UpdateInformationAboutPagesSite p], s')
         | (Inr None, s') \<Rightarrow>
             (Inr (error_envelope (undefined_property_error ''html_url'')),
              [UpdateInformationAboutPagesSite p], s')
         | (Inr (Some data), s') \<Rightarrow>
             (Inr \<lparr>payload =
                      obj [(''success'', Some (JBool True)),
                           (''message'',
                            Some (JStr ''GitHub Pages configuration updated successfully'')),
                           (''url'', map_of data ''html_url''),
                           (''source'', map_of data ''source''),
                           (''build_type'', map_of data ''build_type''),
                           (''cname'', map_of data ''cname'')],
                    isError = None\<rparr>,
              [UpdateInformationAboutPagesSite p], s'))"
proof -
  obtain kvs where args: "args = Some (JObj kvs)"
    using UpdateGithubPagesConfigSchema_object [OF assms] by (elim exE)
  have p: "UpdateGithubPagesConfigSchema [] (Some (JObj kvs)) = Inr inp"
    using assms unfolding args parse_def .
  note f = UpdateGithubPagesConfigSchema_Inr [OF p]
  have bt: "(case up_build_type inp of None \<Rightarrow> None | Some b \<Rightarrow> if b = [] then None else Some b)
            = up_build_type inp"
    using f(4) by auto
  have cn: "(if up_cname inp \<noteq> None then up_cname inp else None) = up_cname inp"
    by simp
  have so: "(case up_source inp of
               None \<Rightarrow> api_return None
             | Some source \<Rightarrow> api_bind (update_source source) (\<lambda>so. api_return (Some so)))
            = (api_return (map_option
                              (\<lambda>so. \<lparr>ps_branch = src_branch so,
                                     ps_path = (case src_path so of None \<Rightarrow> ''/'' | Some x \<Rightarrow> x)\<rparr>)
                              (up_source inp)) :: ('a, pages_source option) api)"
  proof (cases "up_source inp")
    case None then show ?thesis by simp
  next
    case (Some so)
    then have "SourceSchema [Key ''source''] (map_of kvs ''source'') = Inr so"
      using f(3) by simp
    from SourceSchema_Inr [OF this]
    have "src_path so = None \<or> src_path so = Some ''/'' \<or> src_path so = Some ''/docs''"
      by auto
    then show ?thesis using Some by (simp add: update_source_ok api_bind_return)
  qed
  have run: "try_catch
               (api_bind (perform c m)
                  (\<lambda>r. case r of None \<Rightarrow> api_throw e0 | Some data \<Rightarrow> api_return (k data)))
               error_envelope s =
             (case m s of
                (Inl e, s') \<Rightarrow> (Inr (error_envelope e), [c], s')
              | (Inr None, s') \<Rightarrow> (Inr (error_envelope e0), [c], s')
              | (Inr (Some data), s') \<Rightarrow> (Inr (k data), [c], s'))"
    for c and m :: "'a \<Rightarrow> (js_error + pages_data option) \<times> 'a" and e0 k
    by (simp add: try_catch_def api_bind_def perform_def api_return_def api_throw_def
             split: prod.splits sum.splits option.splits)
  show ?thesis
    using assms
    by (simp only: updateGithubPagesConfig_def sum.case so bt cn api_bind_return Let_def run)
qed

lemma issues_of_z_optional:
  "map_of kvs k \<noteq> None \<Longrightarrow>
     issues_of (z_field (z_optional t) p kvs k) = issues_of (z_field t p kvs k)"
  by (cases "t (p @ [Key k]) (map_of kvs k)") (auto simp: z_field_def z_optional_def)

lemma issues_update_enable:
  assumes "map_of kvs ''source'' \<noteq> None"
  shows "issues_of (parse UpdateGithubPagesConfigSchema (Some (JObj kvs))) =
           issues_of (parse EnableGithubPagesSchema (Some (JObj kvs)))
           @ issues_of (z_field (z_optional z_string) [] kvs ''cname'')"
  by (simp add: parse_def issues_of_UpdateGithubPagesConfigSchema
        issues_of_EnableGithubPagesSchema issues_of_z_optional [OF assms])

lemma issues_of_SourceSchema:
  "issues_of (SourceSchema p (Some (JObj skvs))) =
     issues_of (z_field z_string p skvs ''branch'')
     @ issues_of (z_field (z_optional (z_enum [''/'', ''/docs''])) p skvs ''path'')"
  by (simp add: SourceSchema_def issues_of_ap)

lemma z_enum_rejects:
  assumes "v \<noteq> JStr ''/''" and "v \<noteq> JStr ''/docs''"
  shows "\<exists>m. z_enum [''/'', ''/docs''] p (Some v) = Inl [\<lparr>issue_path = p, issue_message = m\<rparr>]"
proof (cases v)
  case (JStr x)
  then have "x \<notin> set [''/'', ''/docs'']" using assms by simp
  then show ?thesis unfolding JStr z_enum_def by simp
qed (simp_all add: z_enum_def invalid_type_def)

subsection \<open>The deploy handler\<close>

lemma blob_item_run:
  "blob_item oct owner repo file (log, s) =
     (case createBlob oct owner repo (fl_content file)
             (if fl_encoding file = Some ''base64'' then ''base64'' else ''utf-8'') s of
        (Inl e, s') \<Rightarrow>
          (Inl e,
           log @ [CreateBlob owner repo (fl_content file)
                    (if fl_encoding file = Some ''base64'' then ''base64'' else ''utf-8'')], s')
      | (Inr sha, s') \<Rightarrow>
          (Inr \<lparr>ti_path = fl_path file, ti_mode = ''100644'', ti_type = ''blob'', ti_sha = sha\<rparr>,
           log @ [CreateBlob owner repo (fl_content file)
                    (if fl_encoding file = Some ''base64'' then ''base64'' else ''utf-8'')], s'))"
  by (simp add: blob_item_def Let_def api_bind_def perform_def api_return_def
           split: prod.splits sum.splits)

lemma blob_phase_log:
  "promise_all_map (blob_item oct owner repo) files (log, s) = (res, log', s') \<Longrightarrow>
     log' = log @ map (\<lambda>file. CreateBlob owner repo (fl_content file)
                        (if fl_encoding file = Some ''base64'' then ''base64'' else ''utf-8'')) files"
proof (induction files arbitrary: log s res log' s')
  case Nil
  then show ?case by simp
next
  case (Cons f fs)
  obtain r1 log1 s1 where 1: "blob_item oct owner repo f (log, s) = (r1, log1, s1)"
    by (cases "blob_item oct owner repo f (log, s)") auto
  obtain r2 log2 s2 where 2: "promise_all_map (blob_item oct owner repo) fs (log1, s1) = (r2, log2, s2)"
    by (cases "promise_all_map (blob_item oct owner repo) fs (log1, s1)") auto
  have l1: "log1 = log @ [CreateBlob owner repo (fl_content f)
                        (if fl_encoding f = Some ''base64'' then ''base64'' else ''utf-8'')]"
    using 1 unfolding blob_item_run by (simp split: prod.splits sum.splits split del: if_split)
  have l2: "log2 = log1 @ map (\<lambda>file. CreateBlob owner repo (fl_content file)
                        (if fl_encoding file = Some ''base64'' then ''base64'' else ''utf-8'')) fs"
    using Cons.IH [OF 2] .
  have "log' = log2"
    using Cons.prems 1 2 by (auto split: sum.splits)
  then show ?case using l1 l2 by simp
qed

lemma blob_phase_items:
  "promise_all_map (blob_item oct owner repo) files (log, s) = (Inr items, log', s') \<Longrightarrow>
     list_all2 (\<lambda>file entry.
        ti_path entry = fl_path file \<and> ti_mode entry = ''100644'' \<and> ti_type entry = ''blob''
        \<and> (\<exists>s1 s2. createBlob oct owner repo (fl_content file)
                      (if fl_encoding file = Some ''base64'' then ''base64'' else ''utf-8'') s1 =
                    (Inr (ti_sha entry), s2))) files items"
proof (induction files arbitrary: log s items log' s')
  case Nil
  then show ?case by simp
next
  case (Cons f fs)
  obtain r1 log1 s1 where 1: "blob_item oct owner repo f (log, s) = (r1, log1, s1)"
    by (cases "blob_item oct owner repo f (log, s)") auto
  obtain r2 log2 s2 where 2: "promise_all_map (blob_item oct owner repo) fs (log1, s1) = (r2, log2, s2)"
    by (cases "promise_all_map (blob_item oct owner repo) fs (log1, s1)") auto
  from Cons.prems 1 2 obtain y ys where
    r1: "r1 = Inr y" and r2: "r2 = Inr ys" and items: "items = y # ys"
    by (auto split: sum.splits)
  obtain sha sx where
    cb: "createBlob oct owner repo (fl_content f)
           (if fl_encoding f = Some ''base64'' then ''base64'' else ''utf-8'') s = (Inr sha, sx)"
    and yv: "y = \<lparr>ti_path = fl_path f, ti_mode = ''100644'', ti_type = ''blob'', ti_sha = sha\<rparr>"
    using 1 unfolding blob_item_run r1
    by (cases "createBlob oct owner repo (fl_content f)
           (if fl_encoding f = Some ''base64'' then ''base64'' else ''utf-8'') s")
       (simp split: sum.splits split del: if_split)
  have "createBlob oct owner repo (fl_content f)
           (if fl_encoding f = Some ''base64'' then ''base64'' else ''utf-8'') s = (Inr (ti_sha y), sx)"
    using cb by (simp add: yv)
  then have "\<exists>s1 s2. createBlob oct owner repo (fl_content f)
                      (if fl_encoding f = Some ''base64'' then ''base64'' else ''utf-8'') s1 =
                    (Inr (ti_sha y), s2)"
    by (intro exI)
  then have y: "ti_path y = fl_path f \<and> ti_mode y = ''100644'' \<and> ti_type y = ''blob''
        \<and> (\<exists>s1 s2. createBlob oct owner repo (fl_content f)
                      (if fl_encoding f = Some ''base64'' then ''base64'' else ''utf-8'') s1 =
                    (Inr (ti_sha y), s2))"
    by (simp add: yv)
  have ys: "list_all2 (\<lambda>file entry.
        ti_path entry = fl_path file \<and> ti_mode entry = ''100644'' \<and> ti_type entry = ''blob''
        \<and> (\<exists>s1 s2. createBlob oct owner repo (fl_content file)
                      (if fl_encoding file = Some ''base64'' then ''base64'' else ''utf-8'') s1 =
                    (Inr (ti_sha entry), s2))) fs ys"
    using Cons.IH [OF 2 [unfolded r2]] .
  show ?case unfolding items using y ys by simp
qed

lemma deploy_run:
  assumes "parse DeployToGithubPagesSchema args = Inr inp"
    and "dp_files inp = Some files" and "files \<noteq> []"
  shows "deployToGithubPages oct args s =
     (case getRef oct (dp_owner inp) (dp_repo inp) (''heads/'' @ dp_branch inp) s of
        (Inl e, s1) \<Rightarrow>
          (Inr (error_envelope e),
           [GetRef (dp_owner inp) (dp_repo inp) (''heads/'' @ dp_branch inp)], s1)
      | (Inr tip, s1) \<Rightarrow>
     (case getCommit oct (dp_owner inp) (dp_repo inp) tip s1 of
        (Inl e, s2) \<Rightarrow>
          (Inr (error_envelope e),
           [GetRef (dp_owner inp) (dp_repo inp) (''heads/'' @ dp_branch inp),
            GetCommit (dp_owner inp) (dp_repo inp) tip], s2)
      | (Inr base, s2) \<Rightarrow>
     (case promise_all_map (blob_item oct (dp_owner inp) (dp_repo inp)) files
             ([GetRef (dp_owner inp) (dp_repo inp) (''heads/'' @ dp_branch inp),
               GetCommit (dp_owner inp) (dp_repo inp) tip], s2) of
        (Inl e, log3, s3) \<Rightarrow> (Inr (error_envelope e), log3, s3)
      | (Inr items, log3, s3) \<Rightarrow>
     (case createTree oct (dp_owner inp) (dp_repo inp) items base s3 of
        (Inl e, s4) \<Rightarrow>
          (Inr (error_envelope e),
           log3 @ [CreateTree (dp_owner inp) (dp_repo inp) items base], s4)
      | (Inr tree, s4) \<Rightarrow>
     (case createCommit oct (dp_owner inp) (dp_repo inp)
             (or_default (dp_message inp) ''Deploy to GitHub Pages'') tree [tip] s4 of
        (Inl e, s5) \<Rightarrow>
          (Inr (error_envelope e),
           log3 @ [CreateTree (dp_owner inp) (dp_repo inp) items base,
                   CreateCommit (dp_owner inp) (dp_repo inp)
                     (or_default (dp_message inp) ''Deploy to GitHub Pages'') tree [tip]], s5)
      | (Inr new, s5) \<Rightarrow>
     (case updateRef oct (dp_owner inp) (dp_repo inp) (''heads/'' @ dp_branch inp) new s5 of
        (Inl e, s6) \<Rightarrow>
          (Inr (error_envelope e),
           log3 @ [CreateTree (dp_owner inp) (dp_repo inp) items base,
                   CreateCommit (dp_owner inp) (dp_repo inp)
                     (or_default (dp_message inp) ''Deploy to GitHub Pages'') tree [tip],
                   UpdateRef (dp_owner inp) (dp_repo inp) (''heads/'' @ dp_branch inp) new], s6)
      | (Inr u, s6) \<Rightarrow>
          (Inr \<lparr>payload = obj [(''success'', Some (JBool True)),
                                (''message'', Some (JStr ''Files deployed successfully'')),
                                (''commit_sha'', Some (JStr new)),
                                (''files_deployed'', Some (JNum (int (length files))))],
                 isError = None\<rparr>,
           log3 @ [CreateTree (dp_owner inp) (dp_repo inp) items base,
                   CreateCommit (dp_owner inp) (dp_repo inp)
                     (or_default (dp_message inp) ''Deploy to GitHub Pages'') tree [tip],
                   UpdateRef (dp_owner inp) (dp_repo inp) (''heads/'' @ dp_branch inp) new],
           s6)))))))"
  using assms
  by (simp add: deployToGithubPages_def Let_def try_catch_def api_bind_def perform_def
        api_return_def split: prod.splits sum.splits)

lemma blob_phase_chain:
  "promise_all_map (blob_item oct owner repo) files (log, s) = (Inr items, log', s') \<Longrightarrow>
     \<exists>states. length states = Suc (length files) \<and> states ! 0 = s
       \<and> states ! length files = s'
       \<and> (\<forall>i<length files.
             createBlob oct owner repo (fl_content (files ! i))
               (if fl_encoding (files ! i) = Some ''base64'' then ''base64'' else ''utf-8'')
               (states ! i) = (Inr (ti_sha (items ! i)), states ! Suc i))"
proof (induction files arbitrary: log s items log' s')
  case Nil
  then have "s' = s" by simp
  then show ?case by (intro exI [of _ "[s]"]) simp
next
  case (Cons f fs)
  obtain r1 log1 s1 where 1: "blob_item oct owner repo f (log, s) = (r1, log1, s1)"
    by (cases "blob_item oct owner repo f (log, s)") auto
  obtain r2 log2 s2 where 2: "promise_all_map (blob_item oct owner repo) fs (log1, s1) = (r2, log2, s2)"
    by (cases "promise_all_map (blob_item oct owner repo) fs (log1, s1)") auto
  from Cons.prems 1 2 obtain y ys where
    r1: "r1 = Inr y" and r2: "r2 = Inr ys" and items: "items = y # ys" and s2: "s2 = s'"
    by (auto split: sum.splits)
  obtain sha sx where
    cb: "createBlob oct owner repo (fl_content f)
           (if fl_encoding f = Some ''base64'' then ''base64'' else ''utf-8'') s = (Inr sha, sx)"
    and yv: "y = \<lparr>ti_path = fl_path f, ti_mode = ''100644'', ti_type = ''blob'', ti_sha = sha\<rparr>"
    and sx: "sx = s1"
    using 1 unfolding blob_item_run r1
    by (cases "createBlob oct owner repo (fl_content f)
           (if fl_encoding f = Some ''base64'' then ''base64'' else ''utf-8'') s")
       (simp split: sum.splits split del: if_split)
  have cb': "createBlob oct owner repo (fl_content f)
           (if fl_encoding f = Some ''base64'' then ''base64'' else ''utf-8'') s
             = (Inr (ti_sha y), s1)"
    using cb by (simp add: yv sx)
  from Cons.IH [OF 2 [unfolded r2]] obtain states where
    len: "length states = Suc (length fs)" and st0: "states ! 0 = s1"
    and stn: "states ! length fs = s2"
    and chain: "\<forall>i<length fs.
             createBlob oct owner repo (fl_content (fs ! i))
               (if fl_encoding (fs ! i) = Some ''base64'' then ''base64'' else ''utf-8'')
               (states ! i) = (Inr (ti_sha (ys ! i)), states ! Suc i)"
    by (elim exE conjE)
  have step: "createBlob oct owner repo (fl_content ((f # fs) ! i))
               (if fl_encoding ((f # fs) ! i) = Some ''base64'' then ''base64'' else ''utf-8'')
               ((s # states) ! i) = (Inr (ti_sha ((y # ys) ! i)), (s # states) ! Suc i)"
    if "i < length (f # fs)" for i
  proof (cases i)
    case 0
    then show ?thesis using cb' st0 by simp
  next
    case (Suc j)
    then have "j < length fs" using that by simp
    then show ?thesis using chain Suc by simp
  qed
  show ?case
    unfolding items
    by (rule exI [of _ "s # states"]) (use len stn s2 step in simp)
qed

lemma isError_error_envelope: "isError (error_envelope e) = Some True"
  by (simp add: error_envelope_def)

lemma deploy_run_success:
  assumes "parse DeployToGithubPagesSchema args = Inr inp"
    and "dp_files inp = Some files" and "files \<noteq> []"
    and "deployToGithubPages oct args s = (Inr env, log, s')"
    and "isError env \<noteq> Some True"
  shows "\<exists>tip s1 base s2 tree log3 s3 tree_sha s4 new s5.
           getRef oct (dp_owner inp) (dp_repo inp) (''heads/'' @ dp_branch inp) s = (Inr tip, s1)
         \<and> getCommit oct (dp_owner inp) (dp_repo inp) tip s1 = (Inr base, s2)
         \<and> promise_all_map (blob_item oct (dp_owner inp) (dp_repo inp)) files
               ([GetRef (dp_owner inp) (dp_repo inp) (''heads/'' @ dp_branch inp),
                 GetCommit (dp_owner inp) (dp_repo inp) tip], s2) = (Inr tree, log3, s3)
         \<and> createTree oct (dp_owner inp) (dp_repo inp) tree base s3 = (Inr tree_sha, s4)
         \<and> createCommit oct (dp_owner inp) (dp_repo inp)
              (or_default (dp_message inp) ''Deploy to GitHub Pages'') tree_sha [tip] s4
             = (Inr new, s5)
         \<and> updateRef oct (dp_owner inp) (dp_repo inp) (''heads/'' @ dp_branch inp) new s5
             = (Inr (), s')
         \<and> log = log3 @ [CreateTree (dp_owner inp) (dp_repo inp) tree base,
                          CreateCommit (dp_owner inp) (dp_repo inp)
                            (or_default (dp_message inp) ''Deploy to GitHub Pages'') tree_sha [tip],
                          UpdateRef (dp_owner inp) (dp_repo inp) (''heads/'' @ dp_branch inp) new]
         \<and> env = \<lparr>payload = obj [(''success'', Some (JBool True)),
                                 (''message'', Some (JStr ''Files deployed successfully'')),
                                 (''commit_sha'', Some (JStr new)),
                                 (''files_deployed'', Some (JNum (int (length files))))],
                   isError = None\<rparr>"
proof -
  note run = assms(4) [unfolded deploy_run [OF assms(1-3), of oct s]]
  have no: "(Inr (error_envelope e), l, t) \<noteq> (Inr env, log, s')" for e l t
    using assms(5) isError_error_envelope [of e] by auto
  obtain r1 s1 where 1:
    "getRef oct (dp_owner inp) (dp_repo inp) (''heads/'' @ dp_branch inp) s = (r1, s1)"
    by (cases "getRef oct (dp_owner inp) (dp_repo inp) (''heads/'' @ dp_branch inp) s") auto
  note run1 = run [unfolded 1 prod.case]
  obtain tip where tip: "r1 = Inr tip"
    using run1 no by (cases r1) auto
  note run1' = run1 [unfolded tip sum.case]
  obtain r2 s2 where 2: "getCommit oct (dp_owner inp) (dp_repo inp) tip s1 = (r2, s2)"
    by (cases "getCommit oct (dp_owner inp) (dp_repo inp) tip s1") auto
  note run2 = run1' [unfolded 2 prod.case]
  obtain base where base: "r2 = Inr base"
    using run2 no by (cases r2) auto
  note run2' = run2 [unfolded base sum.case]
  obtain r3 log3 s3 where 3:
    "promise_all_map (blob_item oct (dp_owner inp) (dp_repo inp)) files
       ([GetRef (dp_owner inp) (dp_repo inp) (''heads/'' @ dp_branch inp),
         GetCommit (dp_owner inp) (dp_repo inp) tip], s2) = (r3, log3, s3)"
    by (cases "promise_all_map (blob_item oct (dp_owner inp) (dp_repo inp)) files
       ([GetRef (dp_owner inp) (dp_repo inp) (''heads/'' @ dp_branch inp),
         GetCommit (dp_owner inp) (dp_repo inp) tip], s2)") auto
  note run3 = run2' [unfolded 3 prod.case]
  obtain tree where tree: "r3 = Inr tree"
    using run3 no by (cases r3) auto
  note run3' = run3 [unfolded tree sum.case]
  obtain r4 s4 where 4:
    "createTree oct (dp_owner inp) (dp_repo inp) tree base s3 = (r4, s4)"
    by (cases "createTree oct (dp_owner inp) (dp_repo inp) tree base s3") auto
  note run4 = run3' [unfolded 4 prod.case]
  obtain tree_sha where tree_sha: "r4 = Inr tree_sha"
    using run4 no by (cases r4) auto
  note run4' = run4 [unfolded tree_sha sum.case]
  obtain r5 s5 where 5:
    "createCommit oct (dp_owner inp) (dp_repo inp)
       (or_default (dp_message inp) ''Deploy to GitHub Pages'') tree_sha [tip] s4 = (r5, s5)"
    by (cases "createCommit oct (dp_owner inp) (dp_repo inp)
       (or_default (dp_message inp) ''Deploy to GitHub Pages'') tree_sha [tip] s4") auto
  note run5 = run4' [unfolded 5 prod.case]
  obtain new where new: "r5 = Inr new"
    using run5 no by (cases r5) auto
  note run5' = run5 [unfolded new sum.case]
  obtain r6 s6 where 6:
    "updateRef oct (dp_owner inp) (dp_repo inp) (''heads/'' @ dp_branch inp) new s5 = (r6, s6)"
    by (cases "updateRef oct (dp_owner inp) (dp_repo inp) (''heads/'' @ dp_branch inp) new s5") auto
  note run6 = run5' [unfolded 6 prod.case]
  obtain u where u: "r6 = Inr u"
    using run6 no by (cases r6) auto
  note run6' = run6 [unfolded u sum.case]
  have s6: "s6 = s'" and log: "log = log3 @ [CreateTree (dp_owner inp) (dp_repo inp) tree base,
                          CreateCommit (dp_owner inp) (dp_repo inp)
                            (or_default (dp_message inp) ''Deploy to GitHub Pages'') tree_sha [tip],
                          UpdateRef (dp_owner inp) (dp_repo inp) (''heads/'' @ dp_branch inp) new]"
    and env: "env = \<lparr>payload = obj [(''success'', Some (JBool True)),
                                 (''message'', Some (JStr ''Files deployed successfully'')),
                                 (''commit_sha'', Some (JStr new)),
                                 (''files_deployed'', Some (JNum (int (length files))))],
                   isError = None\<rparr>"
    using run6' by simp_all
  have f1: "getRef oct (dp_owner inp) (dp_repo inp) (''heads/'' @ dp_branch inp) s = (Inr tip, s1)"
    using 1 unfolding tip .
  have f2: "getCommit oct (dp_owner inp) (dp_repo inp) tip s1 = (Inr base, s2)"
    using 2 unfolding base .
  have f3: "promise_all_map (blob_item oct (dp_owner inp) (dp_repo inp)) files
               ([GetRef (dp_owner inp) (dp_repo inp) (''heads/'' @ dp_branch inp),
                 GetCommit (dp_owner inp) (dp_repo inp) tip], s2) = (Inr tree, log3, s3)"
    using 3 unfolding tree .
  have f4: "createTree oct (dp_owner inp) (dp_repo inp) tree base s3 = (Inr tree_sha, s4)"
    using 4 unfolding tree_sha .
  have f5: "createCommit oct (dp_owner inp) (dp_repo inp)
              (or_default (dp_message inp) ''Deploy to GitHub Pages'') tree_sha [tip] s4
             = (Inr new, s5)"
    using 5 unfolding new .
  have f6: "updateRef oct (dp_owner inp) (dp_repo inp) (''heads/'' @ dp_branch inp) new s5
             = (Inr (), s')"
    using 6 unfolding u s6 by simp
  show ?thesis
    by (intro exI conjI) (rule f1, rule f2, rule f3, rule f4, rule f5, rule f6, rule log, rule env)
qed

section \<open>The claims\<close>

text \<open>
  Claim C1, as the code has it. When the validated input of \<^verbatim>\<open>deploy_to_github_pages\<close> has an
  empty \<^verbatim>\<open>files\<close> list, the call returns the envelope with \<^verbatim>\<open>success: false\<close> and the error
  \<^verbatim>\<open>No files provided for deployment\<close>, marked \<^verbatim>\<open>isError: true\<close>, and issues no upstream
  request.
\<close>

theorem deploy_without_files:
  assumes "parse DeployToGithubPagesSchema args = Inr inp" and "dp_files inp = Some []"
  shows "dispatch oct ''deploy_to_github_pages'' args s =
           (Inr \<lparr>payload = JObj [(''success'', JBool False),
                                 (''error'', JStr ''No files provided for deployment'')],
                  isError = Some True\<rparr>, [], s)"
proof -
  have "deployToGithubPages oct args s = (Inr no_files_envelope, [], s)"
    using assms by (simp add: deployToGithubPages_def try_catch_def api_return_def)
  then show ?thesis
    unfolding no_files_envelope_def obj_def
    by (intro dispatch_envelope) (simp add: route_simps)
qed

theorem deploy_without_files_witness:
  "parse DeployToGithubPagesSchema args_deploy_no_files =
     Inr \<lparr>dp_owner = ''o'', dp_repo = ''r'', dp_branch = ''gh-pages'', dp_message = None,
          dp_files = Some []\<rparr>
   \<and> dispatch stub_octokit ''deploy_to_github_pages'' args_deploy_no_files 0 =
           (Inr \<lparr>payload = JObj [(''success'', JBool False),
                                 (''error'', JStr ''No files provided for deployment'')],
                  isError = Some True\<rparr>, [], 0)"
proof -
  have a: "parse DeployToGithubPagesSchema args_deploy_no_files =
     Inr \<lparr>dp_owner = ''o'', dp_repo = ''r'', dp_branch = ''gh-pages'', dp_message = None,
          dp_files = Some []\<rparr>"
    by code_simp
  show ?thesis
    using a deploy_without_files [OF a, of stub_octokit 0] by simp
qed

text \<open>
  Claim C1 as written fails: on an empty \<^verbatim>\<open>files\<close> list the envelope carries
  \<^verbatim>\<open>isError: true\<close>; it is neither the envelope without \<^verbatim>\<open>isError\<close> nor the one with
  \<^verbatim>\<open>isError: false\<close>.
\<close>

theorem deploy_without_files_counterexample:
  "fst (dispatch stub_octokit ''deploy_to_github_pages'' args_deploy_no_files 0) =
     Inr \<lparr>payload = JObj [(''success'', JBool False),
                           (''error'', JStr ''No files provided for deployment'')],
          isError = Some True\<rparr>
   \<and> fst (dispatch stub_octokit ''deploy_to_github_pages'' args_deploy_no_files 0) \<noteq>
     Inr \<lparr>payload = JObj [(''success'', JBool False),
                           (''error'', JStr ''No files provided for deployment'')],
          isError = None\<rparr>
   \<and> fst (dispatch stub_octokit ''deploy_to_github_pages'' args_deploy_no_files 0) \<noteq>
     Inr \<lparr>payload = JObj [(''success'', JBool False),
                           (''error'', JStr ''No files provided for deployment'')],
          isError = Some False\<rparr>"
  by code_simp

text \<open>
  Claim C2, as the code has it. When the raw arguments of a declared tool fail the schema of
  that tool, the request handler does not return an envelope: it raises an \<^verbatim>\<open>Error\<close> whose
  message is \<^verbatim>\<open>Invalid arguments: \<close> followed by all the field violations, each rendered as
  \<^verbatim>\<open>path: message\<close>, joined by \<^verbatim>\<open>, \<close>; no upstream request is issued. The handler raises
  exactly when the tool name is not a declared one or the arguments fail validation; in
  every other case it returns an envelope.
\<close>

theorem dispatch_raises_on_invalid_arguments:
  "(name \<in> set tool_names \<longrightarrow>
      (\<forall>iss. validation_failure name args = Some iss \<longrightarrow>
         dispatch oct name args s =
           (Inl (Error (''Invalid arguments: '' @ join '', '' (map render_issue iss))), [], s)))
   \<and> ((\<exists>t. fst (dispatch oct name args s) = Inl t) \<longleftrightarrow>
        name \<notin> set tool_names \<or> validation_failure name args \<noteq> None)"
proof (intro conjI impI allI)
  fix iss
  assume "name \<in> set tool_names" and "validation_failure name args = Some iss"
  then show "dispatch oct name args s =
      (Inl (Error (''Invalid arguments: '' @ join '', '' (map render_issue iss))), [], s)"
    using dispatch_validation_failure [of name args iss oct s]
    by (simp only: invalid_arguments_def)
next
  show "(\<exists>t. fst (dispatch oct name args s) = Inl t) \<longleftrightarrow>
        name \<notin> set tool_names \<or> validation_failure name args \<noteq> None"
  proof (cases "name \<in> set tool_names")
    case False
    then show ?thesis using dispatch_unknown [of name oct args s] by simp
  next
    case True
    show ?thesis
    proof (cases "validation_failure name args")
      case None
      then show ?thesis using dispatch_valid [OF True None, of oct s] True by auto
    next
      case (Some iss)
      then show ?thesis using dispatch_validation_failure [OF True Some, of oct s] by simp
    qed
  qed
qed

theorem dispatch_raises_on_invalid_arguments_witness:
  "''get_github_pages_info'' \<in> set tool_names
   \<and> validation_failure ''get_github_pages_info'' (Some (JObj [])) =
       Some [\<lparr>issue_path = [Key ''owner''], issue_message = ''Required''\<rparr>,
             \<lparr>issue_path = [Key ''repo''], issue_message = ''Required''\<rparr>]
   \<and> dispatch stub_octokit ''get_github_pages_info'' (Some (JObj [])) 0 =
       (Inl (Error ''Invalid arguments: owner: Required, repo: Required''), [], 0)
   \<and> ((\<exists>t. fst (dispatch stub_octokit ''get_github_pages_info'' args_repo 0) = Inl t) \<longleftrightarrow>
        ''get_github_pages_info'' \<notin> set tool_names
        \<or> validation_failure ''get_github_pages_info'' args_repo \<noteq> None)"
proof -
  have a: "''get_github_pages_info'' \<in> set tool_names"
    by code_simp
  have b: "validation_failure ''get_github_pages_info'' (Some (JObj [])) =
       Some [\<lparr>issue_path = [Key ''owner''], issue_message = ''Required''\<rparr>,
             \<lparr>issue_path = [Key ''repo''], issue_message = ''Required''\<rparr>]"
    by code_simp
  have c: "''Invalid arguments: '' @ join '', ''
             (map render_issue [\<lparr>issue_path = [Key ''owner''], issue_message = ''Required''\<rparr>,
                                \<lparr>issue_path = [Key ''repo''], issue_message = ''Required''\<rparr>]) =
           ''Invalid arguments: owner: Required, repo: Required''"
    by code_simp
  note d = dispatch_raises_on_invalid_arguments
    [of "''get_github_pages_info''" "Some (JObj [])" stub_octokit 0,
     THEN conjunct1, rule_format, OF a b]
  note e = dispatch_raises_on_invalid_arguments
    [of "''get_github_pages_info''" args_repo stub_octokit 0, THEN conjunct2]
  show ?thesis using a b d e unfolding c by (intro conjI)
qed

text \<open>
  Claim C2 as written fails: the tool name below is a declared one, the arguments fail
  its schema, and the call raises instead of returning an envelope.
\<close>

theorem dispatch_raises_counterexample:
  "''get_github_pages_info'' \<in> set tool_names
   \<and> fst (dispatch stub_octokit ''get_github_pages_info'' (Some (JObj [(''owner'', JNum 7)])) 0) =
       Inl (Error ''Invalid arguments: owner: Expected string, received number, repo: Required'')"
  by code_simp

text \<open>
  Claim C3. When the arguments of \<^verbatim>\<open>get_github_pages_info\<close> pass validation and the upstream
  call that reads the Pages settings fails: if the status of the failure is 404, the call
  returns the envelope with \<^verbatim>\<open>success: false\<close> and the error
  \<^verbatim>\<open>GitHub Pages is not enabled for this repository\<close>, without \<^verbatim>\<open>isError\<close>; for every other
  failure it returns an envelope with \<^verbatim>\<open>isError: true\<close> whose error is the message of the
  upstream failure.
\<close>

theorem get_info_upstream_failure:
  assumes "parse GetGithubPagesInfoSchema args = Inr inp"
    and "getPages oct (rp_owner inp) (rp_repo inp) s = (Inl e, s')"
  shows "(err_status e = Some 404 \<longrightarrow>
            dispatch oct ''get_github_pages_info'' args s =
              (Inr \<lparr>payload = JObj [(''success'', JBool False),
                                    (''error'', JStr ''GitHub Pages is not enabled for this repository'')],
                     isError = None\<rparr>,
               [GetPages (rp_owner inp) (rp_repo inp)], s'))
       \<and> (err_status e \<noteq> Some 404 \<longrightarrow>
            (\<exists>details. dispatch oct ''get_github_pages_info'' args s =
              (Inr \<lparr>payload = JObj [(''success'', JBool False),
                                    (''error'', JStr (err_message e)),
                                    (''details'', details)],
                     isError = Some True\<rparr>,
               [GetPages (rp_owner inp) (rp_repo inp)], s')))"
proof -
  have "getGithubPagesInfo oct args s =
          (Inr (if err_status e = Some 404 then not_enabled_envelope else error_envelope e),
           [GetPages (rp_owner inp) (rp_repo inp)], s')"
    using assms by (simp add: getGithubPagesInfo_def try_catch_perform)
  then have "dispatch oct ''get_github_pages_info'' args s =
          (Inr (if err_status e = Some 404 then not_enabled_envelope else error_envelope e),
           [GetPages (rp_owner inp) (rp_repo inp)], s')"
    by (intro dispatch_envelope) (simp add: route_simps)
  then show ?thesis
    by (simp add: not_enabled_envelope_def error_envelope_def obj_def)
qed

theorem get_info_upstream_failure_witness:
  "parse GetGithubPagesInfoSchema args_repo = Inr \<lparr>rp_owner = ''o'', rp_repo = ''r''\<rparr>
   \<and> getPages stub_octokit ''o'' ''r'' 0 =
       (Inl \<lparr>err_status = Some 404, err_message = ''Not Found'',
             err_data = Some (JObj [(''message'', JStr ''Not Found'')])\<rparr>, 1)
   \<and> dispatch stub_octokit ''get_github_pages_info'' args_repo 0 =
       (Inr \<lparr>payload = JObj [(''success'', JBool False),
                             (''error'', JStr ''GitHub Pages is not enabled for this repository'')],
              isError = None\<rparr>,
        [GetPages ''o'' ''r''], 1)"
proof -
  have a: "parse GetGithubPagesInfoSchema args_repo = Inr \<lparr>rp_owner = ''o'', rp_repo = ''r''\<rparr>"
    by code_simp
  have b: "getPages stub_octokit (rp_owner \<lparr>rp_owner = ''o'', rp_repo = ''r''\<rparr>)
             (rp_repo \<lparr>rp_owner = ''o'', rp_repo = ''r''\<rparr>) 0 =
       (Inl \<lparr>err_status = Some 404, err_message = ''Not Found'',
             err_data = Some (JObj [(''message'', JStr ''Not Found'')])\<rparr>, 1)"
    by (simp add: stub_octokit_def)
  show ?thesis
    using a b get_info_upstream_failure [OF a b] by simp
qed

text \<open>
  Claim C4, as the code has it. A call to \<^verbatim>\<open>update_github_pages_config\<close> that passes
  validation hands the upstream update method one request; that request has a \<^verbatim>\<open>cname\<close>
  exactly when the caller provided the key \<^verbatim>\<open>cname\<close>, and then it is the caller's string, the
  empty string included; without the key the request has no \<^verbatim>\<open>cname\<close>. The outcome of the
  call (the envelope, the requests issued and the upstream state) is the one that the
  upstream method gives on that request. An explicit \<^verbatim>\<open>null\<close> does not pass validation: the
  call raises \<^verbatim>\<open>Invalid arguments\<close> with the issue \<^verbatim>\<open>cname: Expected string, received null\<close>
  and no upstream request is issued.
\<close>

theorem update_cname_sent_iff_string_provided:
  assumes "args = Some (JObj kvs)"
  shows "(\<forall>inp. parse UpdateGithubPagesConfigSchema args = Inr inp \<longrightarrow>
            (let p = \<lparr>upd_owner = up_owner inp, upd_repo = up_repo inp,
                       upd_source = map_option
                          (\<lambda>so. \<lparr>ps_branch = src_branch so,
                                 ps_path = (case src_path so of None \<Rightarrow> ''/'' | Some x \<Rightarrow> x)\<rparr>)
                          (up_source inp),
                       upd_build_type = up_build_type inp,
                       upd_cname = up_cname inp\<rparr>
             in dispatch oct ''update_github_pages_config'' args s =
                  (case updateInformationAboutPagesSite oct p s of
                     (Inl e, s') \<Rightarrow>
                       (Inr (error_envelope e), [UpdateInformationAboutPagesSite p], s')
                   | (Inr None, s') \<Rightarrow>
                       (Inr (error_envelope (undefined_property_error ''html_url'')),
                        [UpdateInformationAboutPagesSite p], s')
                   | (Inr (Some data), s') \<Rightarrow>
                       (Inr \<lparr>payload =
                                obj [(''success'', Some (JBool True)),
                                     (''message'',
                                      Some (JStr ''GitHub Pages configuration updated successfully'')),
                                     (''url'', map_of data ''html_url''),
                                     (''source'', map_of data ''source''),
                                     (''build_type'', map_of data ''build_type''),
                                     (''cname'', map_of data ''cname'')],
                              isError = None\<rparr>,
                        [UpdateInformationAboutPagesSite p], s'))
                \<and> (upd_cname p = None \<longleftrightarrow> map_of kvs ''cname'' = None)
                \<and> (\<forall>c. upd_cname p = Some c \<longleftrightarrow> map_of kvs ''cname'' = Some (JStr c))))
       \<and> (map_of kvs ''cname'' = Some JNull \<longrightarrow>
            (\<exists>iss. dispatch oct ''update_github_pages_config'' args s =
                      (Inl (Error (invalid_arguments iss)), [], s)
                  \<and> \<lparr>issue_path = [Key ''cname''],
                      issue_message = ''Expected string, received null''\<rparr> \<in> set iss))"
proof (intro conjI allI impI)
  fix inp
  assume ok: "parse UpdateGithubPagesConfigSchema args = Inr inp"
  have p: "UpdateGithubPagesConfigSchema [] (Some (JObj kvs)) = Inr inp"
    using ok unfolding assms parse_def .
  have nl: "\<not> isl (fst (updateGithubPagesConfig oct args s))"
    unfolding update_run [OF ok] Let_def
    by (simp split: prod.splits sum.splits option.splits)
  have d: "dispatch oct ''update_github_pages_config'' args s = updateGithubPagesConfig oct args s"
    using dispatch_returned [of oct "''update_github_pages_config''" args s] nl
    by (simp add: route_simps)
  have n: "up_cname inp = None \<longleftrightarrow> map_of kvs ''cname'' = None"
    using UpdateGithubPagesConfigSchema_Inr(5) [OF p] by auto
  have c: "\<forall>c. up_cname inp = Some c \<longleftrightarrow> map_of kvs ''cname'' = Some (JStr c)"
    using UpdateGithubPagesConfigSchema_Inr(5) [OF p] by auto
  show "let p = \<lparr>upd_owner = up_owner inp, upd_repo = up_repo inp,
                       upd_source = map_option
                          (\<lambda>so. \<lparr>ps_branch = src_branch so,
                                 ps_path = (case src_path so of None \<Rightarrow> ''/'' | Some x \<Rightarrow> x)\<rparr>)
                          (up_source inp),
                       upd_build_type = up_build_type inp,
                       upd_cname = up_cname inp\<rparr>
             in dispatch oct ''update_github_pages_config'' args s =
                  (case updateInformationAboutPagesSite oct p s of
                     (Inl e, s') \<Rightarrow>
                       (Inr (error_envelope e), [UpdateInformationAboutPagesSite p], s')
                   | (Inr None, s') \<Rightarrow>
                       (Inr (error_envelope (undefined_property_error ''html_url'')),
                        [UpdateInformationAboutPagesSite p], s')
                   | (Inr (Some data), s') \<Rightarrow>
                       (Inr \<lparr>payload =
                                obj [(''success'', Some (JBool True)),
                                     (''message'',
                                      Some (JStr ''GitHub Pages configuration updated successfully'')),
                                     (''url'', map_of data ''html_url''),
                                     (''source'', map_of data ''source''),
                                     (''build_type'', map_of data ''build_type''),
                                     (''cname'', map_of data ''cname'')],
                              isError = None\<rparr>,
                        [UpdateInformationAboutPagesSite p], s'))
                \<and> (upd_cname p = None \<longleftrightarrow> map_of kvs ''cname'' = None)
                \<and> (\<forall>c. upd_cname p = Some c \<longleftrightarrow> map_of kvs ''cname'' = Some (JStr c))"
    unfolding Let_def d update_run [OF ok] update_params.simps
    by (intro conjI refl n c)
next
  assume null: "map_of kvs ''cname'' = Some JNull"
  let ?e = "\<lparr>issue_path = [Key ''cname''], issue_message = ''Expected string, received null''\<rparr>"
  let ?iss = "issues_of (parse UpdateGithubPagesConfigSchema args)"
  have "z_field (z_optional z_string) [] kvs ''cname'' = Inl [?e]"
    using null by (simp add: z_field_def z_optional_def z_string_def invalid_type_def)
  then have m: "?e \<in> set ?iss"
    unfolding assms parse_def issues_of_UpdateGithubPagesConfigSchema by simp
  then have "?iss \<noteq> []" by auto
  then have "validation_failure ''update_github_pages_config'' args = Some ?iss"
    unfolding validation_failure_simps by (rule failure_issues_of)
  then have "dispatch oct ''update_github_pages_config'' args s =
                      (Inl (Error (invalid_arguments ?iss)), [], s)"
    by (intro dispatch_validation_failure) (simp_all add: tool_names_cases)
  with m show "\<exists>iss. dispatch oct ''update_github_pages_config'' args s =
                      (Inl (Error (invalid_arguments iss)), [], s) \<and> ?e \<in> set iss"
    by (intro exI [of _ ?iss] conjI)
qed

theorem update_cname_sent_iff_string_provided_witness:
  "args_update_cname_empty =
     Some (JObj [(''owner'', JStr ''o''), (''repo'', JStr ''r''), (''cname'', JStr [])])
   \<and> parse UpdateGithubPagesConfigSchema args_update_cname_empty =
       Inr \<lparr>up_owner = ''o'', up_repo = ''r'', up_source = None, up_build_type = None,
            up_cname = Some []\<rparr>
   \<and> updateInformationAboutPagesSite stub_octokit
       \<lparr>upd_owner = ''o'', upd_repo = ''r'', upd_source = None, upd_build_type = None,
        upd_cname = Some []\<rparr> 0 = (Inr (Some []), 1)
   \<and> dispatch stub_octokit ''update_github_pages_config'' args_update_cname_empty 0 =
       (Inr \<lparr>payload = JObj [(''success'', JBool True),
                             (''message'',
                              JStr ''GitHub Pages configuration updated successfully'')],
              isError = None\<rparr>,
        [UpdateInformationAboutPagesSite
           \<lparr>upd_owner = ''o'', upd_repo = ''r'', upd_source = None, upd_build_type = None,
            upd_cname = Some []\<rparr>],
        1)"
proof -
  have a: "args_update_cname_empty =
     Some (JObj [(''owner'', JStr ''o''), (''repo'', JStr ''r''), (''cname'', JStr [])])"
    by (simp add: args_update_cname_empty_def)
  have d: "parse UpdateGithubPagesConfigSchema args_update_cname_empty =
       Inr \<lparr>up_owner = ''o'', up_repo = ''r'', up_source = None, up_build_type = None,
            up_cname = Some []\<rparr>"
    by code_simp
  have e: "updateInformationAboutPagesSite stub_octokit
       \<lparr>upd_owner = ''o'', upd_repo = ''r'', upd_source = None, upd_build_type = None,
        upd_cname = Some []\<rparr> 0 = (Inr (Some []), 1)"
    by (simp add: stub_octokit_def)
  have f: "dispatch stub_octokit ''update_github_pages_config'' args_update_cname_empty 0 =
       (Inr \<lparr>payload = JObj [(''success'', JBool True),
                             (''message'',
                              JStr ''GitHub Pages configuration updated successfully'')],
              isError = None\<rparr>,
        [UpdateInformationAboutPagesSite
           \<lparr>upd_owner = ''o'', upd_repo = ''r'', upd_source = None, upd_build_type = None,
            upd_cname = Some []\<rparr>],
        1)"
    using update_cname_sent_iff_string_provided
            [OF a, of stub_octokit 0, THEN conjunct1, rule_format, OF d]
    by (simp add: Let_def e obj_def)
  show ?thesis using a d e f by (intro conjI)
qed

text \<open>
  Claim C4 as written fails for \<^verbatim>\<open>cname: null\<close>: the key is provided, and no update request
  is sent at all.
\<close>

theorem update_cname_null_counterexample:
  "args_update_cname_null =
     Some (JObj [(''owner'', JStr ''o''), (''repo'', JStr ''r''), (''cname'', JNull)])
   \<and> dispatch stub_octokit ''update_github_pages_config'' args_update_cname_null 0 =
     (Inl (Error ''Invalid arguments: cname: Expected string, received null''), [], 0)"
  by code_simp

text \<open>
  Claim C5. For a validated \<^verbatim>\<open>deploy_to_github_pages\<close> input with a non-empty \<^verbatim>\<open>files\<close> list,
  once the reference \<^verbatim>\<open>heads/<branch>\<close> and the commit it points to are read and the blob
  requests of all files are answered, the call hands the upstream method "create tree" a
  tree with one entry per input file, in the order of the input list: the entry of a file
  has the path of the file, mode \<^verbatim>\<open>100644\<close>, type \<^verbatim>\<open>blob\<close> and the SHA that the upstream
  answered to the blob request for the content of that file, the blob requests being
  issued in the order of the list. The base tree handed over is the tree of the commit
  that the reference resolved to, and the rest of the call (the envelope, the requests
  issued and the upstream state) is what the upstream gives on that tree.
\<close>

theorem deploy_tree_entries:
  assumes "parse DeployToGithubPagesSchema args = Inr inp"
    and "dp_files inp = Some files" and "files \<noteq> []"
    and "getRef oct (dp_owner inp) (dp_repo inp) (''heads/'' @ dp_branch inp) s = (Inr tip, s1)"
    and "getCommit oct (dp_owner inp) (dp_repo inp) tip s1 = (Inr base_tree, s2)"
    and "promise_all_map (blob_item oct (dp_owner inp) (dp_repo inp)) files
           ([GetRef (dp_owner inp) (dp_repo inp) (''heads/'' @ dp_branch inp),
             GetCommit (dp_owner inp) (dp_repo inp) tip], s2) = (Inr tree, log3, s3)"
  shows "list_all2 (\<lambda>file entry.
            ti_path entry = fl_path file \<and> ti_mode entry = ''100644'' \<and> ti_type entry = ''blob'')
           files tree
       \<and> (\<exists>states. length states = Suc (length files) \<and> states ! 0 = s2
             \<and> states ! length files = s3
             \<and> (\<forall>i<length files.
                   createBlob oct (dp_owner inp) (dp_repo inp) (fl_content (files ! i))
                     (if fl_encoding (files ! i) = Some ''base64'' then ''base64'' else ''utf-8'')
                     (states ! i) = (Inr (ti_sha (tree ! i)), states ! Suc i)))
       \<and> log3 = [GetRef (dp_owner inp) (dp_repo inp) (''heads/'' @ dp_branch inp),
                  GetCommit (dp_owner inp) (dp_repo inp) tip]
                @ map (\<lambda>file. CreateBlob (dp_owner inp) (dp_repo inp) (fl_content file)
                         (if fl_encoding file = Some ''base64'' then ''base64'' else ''utf-8''))
                    files
       \<and> dispatch oct ''deploy_to_github_pages'' args s =
           (case createTree oct (dp_owner inp) (dp_repo inp) tree base_tree s3 of
              (Inl e, s4) \<Rightarrow>
                (Inr (error_envelope e),
                 log3 @ [CreateTree (dp_owner inp) (dp_repo inp) tree base_tree], s4)
            | (Inr tree_sha, s4) \<Rightarrow>
           (case createCommit oct (dp_owner inp) (dp_repo inp)
                   (or_default (dp_message inp) ''Deploy to GitHub Pages'') tree_sha [tip] s4 of
              (Inl e, s5) \<Rightarrow>
                (Inr (error_envelope e),
                 log3 @ [CreateTree (dp_owner inp) (dp_repo inp) tree base_tree,
                         CreateCommit (dp_owner inp) (dp_repo inp)
                           (or_default (dp_message inp) ''Deploy to GitHub Pages'') tree_sha [tip]],
                 s5)
            | (Inr new, s5) \<Rightarrow>
           (case updateRef oct (dp_owner inp) (dp_repo inp) (''heads/'' @ dp_branch inp) new s5 of
              (Inl e, s6) \<Rightarrow>
                (Inr (error_envelope e),
                 log3 @ [CreateTree (dp_owner inp) (dp_repo inp) tree base_tree,
                         CreateCommit (dp_owner inp) (dp_repo inp)
                           (or_default (dp_message inp) ''Deploy to GitHub Pages'') tree_sha [tip],
                         UpdateRef (dp_owner inp) (dp_repo inp) (''heads/'' @ dp_branch inp) new],
                 s6)
            | (Inr u, s6) \<Rightarrow>
                (Inr \<lparr>payload = obj [(''success'', Some (JBool True)),
                                      (''message'', Some (JStr ''Files deployed successfully'')),
                                      (''commit_sha'', Some (JStr new)),
                                      (''files_deployed'', Some (JNum (int (length files))))],
                       isError = None\<rparr>,
                 log3 @ [CreateTree (dp_owner inp) (dp_repo inp) tree base_tree,
                         CreateCommit (dp_owner inp) (dp_repo inp)
                           (or_default (dp_message inp) ''Deploy to GitHub Pages'') tree_sha [tip],
                         UpdateRef (dp_owner inp) (dp_repo inp) (''heads/'' @ dp_branch inp) new],
                 s6))))"
proof -
  have entries: "list_all2 (\<lambda>file entry.
            ti_path entry = fl_path file \<and> ti_mode entry = ''100644'' \<and> ti_type entry = ''blob'')
           files tree"
    using blob_phase_items [OF assms(6)] by (rule list_all2_mono) simp
  note chain = blob_phase_chain [OF assms(6)]
  note log3 = blob_phase_log [OF assms(6)]
  note run = deploy_run [OF assms(1-3), of oct s, unfolded assms(4) prod.case sum.case
                           assms(5) assms(6)]
  have nl: "\<not> isl (fst (deployToGithubPages oct args s))"
    unfolding run by (simp split: prod.splits sum.splits)
  have d: "dispatch oct ''deploy_to_github_pages'' args s = deployToGithubPages oct args s"
    using dispatch_returned [of oct "''deploy_to_github_pages''" args s] nl
    by (simp add: route_simps)
  show ?thesis
    unfolding d by (intro conjI entries chain log3 run)
qed

theorem deploy_tree_entries_witness:
  "parse DeployToGithubPagesSchema args_deploy_two_files =
     Inr \<lparr>dp_owner = ''o'', dp_repo = ''r'', dp_branch = ''gh-pages'',
          dp_message = Some ''Update homepage'',
          dp_files = Some [\<lparr>fl_path = ''a.txt'', fl_content = ''x'', fl_encoding = None\<rparr>,
                           \<lparr>fl_path = ''b.txt'', fl_content = ''eA=='',
                            fl_encoding = Some ''base64''\<rparr>]\<rparr>
   \<and> getRef stub_octokit ''o'' ''r'' ''heads/gh-pages'' 0 = (Inr ''c0'', 1)
   \<and> getCommit stub_octokit ''o'' ''r'' ''c0'' 1 = (Inr ''t0'', 2)
   \<and> promise_all_map (blob_item stub_octokit ''o'' ''r'')
        [\<lparr>fl_path = ''a.txt'', fl_content = ''x'', fl_encoding = None\<rparr>,
         \<lparr>fl_path = ''b.txt'', fl_content = ''eA=='', fl_encoding = Some ''base64''\<rparr>]
        ([GetRef ''o'' ''r'' ''heads/gh-pages'', GetCommit ''o'' ''r'' ''c0''], 2) =
       (Inr [\<lparr>ti_path = ''a.txt'', ti_mode = ''100644'', ti_type = ''blob'', ti_sha = ''b2''\<rparr>,
             \<lparr>ti_path = ''b.txt'', ti_mode = ''100644'', ti_type = ''blob'', ti_sha = ''b3''\<rparr>],
        [GetRef ''o'' ''r'' ''heads/gh-pages'', GetCommit ''o'' ''r'' ''c0'',
         CreateBlob ''o'' ''r'' ''x'' ''utf-8'', CreateBlob ''o'' ''r'' ''eA=='' ''base64''],
        4)
   \<and> createTree stub_octokit ''o'' ''r''
        [\<lparr>ti_path = ''a.txt'', ti_mode = ''100644'', ti_type = ''blob'', ti_sha = ''b2''\<rparr>,
         \<lparr>ti_path = ''b.txt'', ti_mode = ''100644'', ti_type = ''blob'', ti_sha = ''b3''\<rparr>]
        ''t0'' 4 = (Inr ''t1'', 5)
   \<and> dispatch stub_octokit ''deploy_to_github_pages'' args_deploy_two_files 0 =
       (Inr \<lparr>payload = JObj [(''success'', JBool True),
                             (''message'', JStr ''Files deployed successfully''),
                             (''commit_sha'', JStr ''c1''),
                             (''files_deployed'', JNum 2)],
              isError = None\<rparr>,
        [GetRef ''o'' ''r'' ''heads/gh-pages'', GetCommit ''o'' ''r'' ''c0'',
         CreateBlob ''o'' ''r'' ''x'' ''utf-8'', CreateBlob ''o'' ''r'' ''eA=='' ''base64'',
         CreateTree ''o'' ''r''
           [\<lparr>ti_path = ''a.txt'', ti_mode = ''100644'', ti_type = ''blob'', ti_sha = ''b2''\<rparr>,
            \<lparr>ti_path = ''b.txt'', ti_mode = ''100644'', ti_type = ''blob'', ti_sha = ''b3''\<rparr>]
           ''t0'',
         CreateCommit ''o'' ''r'' ''Update homepage'' ''t1'' [''c0''],
         UpdateRef ''o'' ''r'' ''heads/gh-pages'' ''c1''],
        7)"
proof -
  let ?files = "[\<lparr>fl_path = ''a.txt'', fl_content = ''x'', fl_encoding = None\<rparr>,
                 \<lparr>fl_path = ''b.txt'', fl_content = ''eA=='', fl_encoding = Some ''base64''\<rparr>]"
  let ?inp = "\<lparr>dp_owner = ''o'', dp_repo = ''r'', dp_branch = ''gh-pages'',
               dp_message = Some ''Update homepage'', dp_files = Some ?files\<rparr>"
  let ?tree = "[\<lparr>ti_path = ''a.txt'', ti_mode = ''100644'', ti_type = ''blob'', ti_sha = ''b2''\<rparr>,
                \<lparr>ti_path = ''b.txt'', ti_mode = ''100644'', ti_type = ''blob'', ti_sha = ''b3''\<rparr>]"
  let ?log3 = "[GetRef ''o'' ''r'' ''heads/gh-pages'', GetCommit ''o'' ''r'' ''c0'',
                CreateBlob ''o'' ''r'' ''x'' ''utf-8'', CreateBlob ''o'' ''r'' ''eA=='' ''base64'']"
  have a: "parse DeployToGithubPagesSchema args_deploy_two_files = Inr ?inp"
    by code_simp
  have b: "dp_files ?inp = Some ?files"
    by simp
  have c: "?files \<noteq> []"
    by simp
  have d0: "getRef stub_octokit ''o'' ''r'' ''heads/gh-pages'' 0 = (Inr ''c0'', 1)"
    by code_simp
  have e0: "getCommit stub_octokit ''o'' ''r'' ''c0'' 1 = (Inr ''t0'', 2)"
    by code_simp
  have f0: "promise_all_map (blob_item stub_octokit ''o'' ''r'') ?files
              ([GetRef ''o'' ''r'' ''heads/gh-pages'', GetCommit ''o'' ''r'' ''c0''], 2) =
            (Inr ?tree, ?log3, 4)"
    by code_simp
  have g0: "createTree stub_octokit ''o'' ''r'' ?tree ''t0'' 4 = (Inr ''t1'', 5)"
    by code_simp
  have h0: "createCommit stub_octokit ''o'' ''r'' ''Update homepage'' ''t1'' [''c0''] 5
              = (Inr ''c1'', 6)"
    by code_simp
  have i0: "updateRef stub_octokit ''o'' ''r'' ''heads/gh-pages'' ''c1'' 6 = (Inr (), 7)"
    by code_simp
  have d: "getRef stub_octokit (dp_owner ?inp) (dp_repo ?inp) (''heads/'' @ dp_branch ?inp) 0
             = (Inr ''c0'', 1)"
    using d0 by simp
  have e: "getCommit stub_octokit (dp_owner ?inp) (dp_repo ?inp) ''c0'' 1 = (Inr ''t0'', 2)"
    using e0 by simp
  have f: "promise_all_map (blob_item stub_octokit (dp_owner ?inp) (dp_repo ?inp)) ?files
             ([GetRef (dp_owner ?inp) (dp_repo ?inp) (''heads/'' @ dp_branch ?inp),
               GetCommit (dp_owner ?inp) (dp_repo ?inp) ''c0''], 2) = (Inr ?tree, ?log3, 4)"
    using f0 by simp
  have m: "or_default (Some ''Update homepage'') ''Deploy to GitHub Pages'' = ''Update homepage''"
    by code_simp
  have r: "dispatch stub_octokit ''deploy_to_github_pages'' args_deploy_two_files 0 =
       (Inr \<lparr>payload = JObj [(''success'', JBool True),
                             (''message'', JStr ''Files deployed successfully''),
                             (''commit_sha'', JStr ''c1''),
                             (''files_deployed'', JNum 2)],
              isError = None\<rparr>,
        ?log3 @ [CreateTree ''o'' ''r'' ?tree ''t0'',
                 CreateCommit ''o'' ''r'' ''Update homepage'' ''t1'' [''c0''],
                 UpdateRef ''o'' ''r'' ''heads/gh-pages'' ''c1''],
        7)"
    using deploy_tree_entries [OF a b c d e f] g0 h0 i0
    by (simp add: m obj_def)
  show ?thesis using a d0 e0 f0 g0 r by simp
qed

text \<open>
  Claim C6, as the code has it. For every successful \<^verbatim>\<open>deploy_to_github_pages\<close> call with a
  non-empty \<^verbatim>\<open>files\<close> list (the envelope is not marked \<^verbatim>\<open>isError\<close>), the upstream answered,
  one after the other: the read of the reference \<^verbatim>\<open>heads/<branch>\<close>, the read of the commit
  it resolved to, one blob request per file, the creation of the tree, the creation of the
  commit and the update of the reference. The commit is created with a parent list that
  is exactly the resolved tip; its message is the supplied message when that is a
  non-empty string, and \<^verbatim>\<open>Deploy to GitHub Pages\<close> when the message is omitted or empty. The
  upstream method that updates a reference is handed \<^verbatim>\<open>heads/<branch>\<close> and the SHA of the
  new commit, and the upstream state after the call is the one it leaves. The payload
  reports that SHA as \<^verbatim>\<open>commit_sha\<close> and the length of the files list as \<^verbatim>\<open>files_deployed\<close>.
\<close>

theorem deploy_success_commit:
  assumes "parse DeployToGithubPagesSchema args = Inr inp"
    and "dp_files inp = Some files" and "files \<noteq> []"
    and "dispatch oct ''deploy_to_github_pages'' args s = (Inr env, log, s')"
    and "isError env \<noteq> Some True"
  shows "\<exists>tip s1 base s2 tree s3 tree_sha s4 new s5.
           getRef oct (dp_owner inp) (dp_repo inp) (''heads/'' @ dp_branch inp) s = (Inr tip, s1)
         \<and> getCommit oct (dp_owner inp) (dp_repo inp) tip s1 = (Inr base, s2)
         \<and> promise_all_map (blob_item oct (dp_owner inp) (dp_repo inp)) files
               ([GetRef (dp_owner inp) (dp_repo inp) (''heads/'' @ dp_branch inp),
                 GetCommit (dp_owner inp) (dp_repo inp) tip], s2)
             = (Inr tree,
                [GetRef (dp_owner inp) (dp_repo inp) (''heads/'' @ dp_branch inp),
                 GetCommit (dp_owner inp) (dp_repo inp) tip]
                @ map (\<lambda>file. CreateBlob (dp_owner inp) (dp_repo inp) (fl_content file)
                         (if fl_encoding file = Some ''base64'' then ''base64'' else ''utf-8''))
                    files,
                s3)
         \<and> createTree oct (dp_owner inp) (dp_repo inp) tree base s3 = (Inr tree_sha, s4)
         \<and> createCommit oct (dp_owner inp) (dp_repo inp)
              (case dp_message inp of
                 None \<Rightarrow> ''Deploy to GitHub Pages''
               | Some m \<Rightarrow> if m = [] then ''Deploy to GitHub Pages'' else m)
              tree_sha [tip] s4 = (Inr new, s5)
         \<and> updateRef oct (dp_owner inp) (dp_repo inp) (''heads/'' @ dp_branch inp) new s5
             = (Inr (), s')
         \<and> log = [GetRef (dp_owner inp) (dp_repo inp) (''heads/'' @ dp_branch inp),
                   GetCommit (dp_owner inp) (dp_repo inp) tip]
                 @ map (\<lambda>file. CreateBlob (dp_owner inp) (dp_repo inp) (fl_content file)
                          (if fl_encoding file = Some ''base64'' then ''base64'' else ''utf-8''))
                     files
                 @ [CreateTree (dp_owner inp) (dp_repo inp) tree base,
                    CreateCommit (dp_owner inp) (dp_repo inp)
                      (case dp_message inp of
                         None \<Rightarrow> ''Deploy to GitHub Pages''
                       | Some m \<Rightarrow> if m = [] then ''Deploy to GitHub Pages'' else m)
                      tree_sha [tip],
                    UpdateRef (dp_owner inp) (dp_repo inp) (''heads/'' @ dp_branch inp) new]
         \<and> env = \<lparr>payload = JObj [(''success'', JBool True),
                                  (''message'', JStr ''Files deployed successfully''),
                                  (''commit_sha'', JStr new),
                                  (''files_deployed'', JNum (int (length files)))],
                   isError = None\<rparr>"
proof -
  have r: "route oct ''deploy_to_github_pages'' args s = (Inr env, log, s')"
    using assms(4) by (auto simp: dispatch_def split: prod.splits sum.splits thrown.splits)
  have h: "deployToGithubPages oct args s = (Inr env, log, s')"
    using r unfolding route_simps .
  have msg: "or_default (dp_message inp) ''Deploy to GitHub Pages'' =
               (case dp_message inp of
                  None \<Rightarrow> ''Deploy to GitHub Pages''
                | Some m \<Rightarrow> if m = [] then ''Deploy to GitHub Pages'' else m)"
    by (simp add: or_default_def)
  from deploy_run_success [OF assms(1-3) h assms(5)]
  obtain tip s1 base s2 tree log3 s3 tree_sha s4 new s5 where
    f1: "getRef oct (dp_owner inp) (dp_repo inp) (''heads/'' @ dp_branch inp) s = (Inr tip, s1)"
    and f2: "getCommit oct (dp_owner inp) (dp_repo inp) tip s1 = (Inr base, s2)"
    and f3: "promise_all_map (blob_item oct (dp_owner inp) (dp_repo inp)) files
               ([GetRef (dp_owner inp) (dp_repo inp) (''heads/'' @ dp_branch inp),
                 GetCommit (dp_owner inp) (dp_repo inp) tip], s2) = (Inr tree, log3, s3)"
    and f4: "createTree oct (dp_owner inp) (dp_repo inp) tree base s3 = (Inr tree_sha, s4)"
    and f5: "createCommit oct (dp_owner inp) (dp_repo inp)
              (or_default (dp_message inp) ''Deploy to GitHub Pages'') tree_sha [tip] s4
             = (Inr new, s5)"
    and f6: "updateRef oct (dp_owner inp) (dp_repo inp) (''heads/'' @ dp_branch inp) new s5
             = (Inr (), s')"
    and log: "log = log3 @ [CreateTree (dp_owner inp) (dp_repo inp) tree base,
                          CreateCommit (dp_owner inp) (dp_repo inp)
                            (or_default (dp_message inp) ''Deploy to GitHub Pages'') tree_sha [tip],
                          UpdateRef (dp_owner inp) (dp_repo inp) (''heads/'' @ dp_branch inp) new]"
    and env: "env = \<lparr>payload = obj [(''success'', Some (JBool True)),
                                 (''message'', Some (JStr ''Files deployed successfully'')),
                                 (''commit_sha'', Some (JStr new)),
                                 (''files_deployed'', Some (JNum (int (length files))))],
                   isError = None\<rparr>"
    by (elim exE conjE)
  note l3 = blob_phase_log [OF f3]
  have g3: "promise_all_map (blob_item oct (dp_owner inp) (dp_repo inp)) files
               ([GetRef (dp_owner inp) (dp_repo inp) (''heads/'' @ dp_branch inp),
                 GetCommit (dp_owner inp) (dp_repo inp) tip], s2)
             = (Inr tree,
                [GetRef (dp_owner inp) (dp_repo inp) (''heads/'' @ dp_branch inp),
                 GetCommit (dp_owner inp) (dp_repo inp) tip]
                @ map (\<lambda>file. CreateBlob (dp_owner inp) (dp_repo inp) (fl_content file)
                         (if fl_encoding file = Some ''base64'' then ''base64'' else ''utf-8''))
                    files,
                s3)"
    using f3 l3 by simp
  have g5: "createCommit oct (dp_owner inp) (dp_repo inp)
              (case dp_message inp of
                 None \<Rightarrow> ''Deploy to GitHub Pages''
               | Some m \<Rightarrow> if m = [] then ''Deploy to GitHub Pages'' else m)
              tree_sha [tip] s4 = (Inr new, s5)"
    using f5 unfolding msg .
  have glog: "log = [GetRef (dp_owner inp) (dp_repo inp) (''heads/'' @ dp_branch inp),
                   GetCommit (dp_owner inp) (dp_repo inp) tip]
                 @ map (\<lambda>file. CreateBlob (dp_owner inp) (dp_repo inp) (fl_content file)
                          (if fl_encoding file = Some ''base64'' then ''base64'' else ''utf-8''))
                     files
                 @ [CreateTree (dp_owner inp) (dp_repo inp) tree base,
                    CreateCommit (dp_owner inp) (dp_repo inp)
                      (case dp_message inp of
                         None \<Rightarrow> ''Deploy to GitHub Pages''
                       | Some m \<Rightarrow> if m = [] then ''Deploy to GitHub Pages'' else m)
                      tree_sha [tip],
                    UpdateRef (dp_owner inp) (dp_repo inp) (''heads/'' @ dp_branch inp) new]"
    unfolding log l3 msg by simp
  have genv: "env = \<lparr>payload = JObj [(''success'', JBool True),
                                  (''message'', JStr ''Files deployed successfully''),
                                  (''commit_sha'', JStr new),
                                  (''files_deployed'', JNum (int (length files)))],
                   isError = None\<rparr>"
    unfolding env by (simp add: obj_def)
  show ?thesis
    by (intro exI conjI)
       (rule f1, rule f2, rule g3, rule f4, rule g5, rule f6, rule glog, rule genv)
qed

theorem deploy_success_commit_witness:
  "parse DeployToGithubPagesSchema args_deploy_two_files =
     Inr \<lparr>dp_owner = ''o'', dp_repo = ''r'', dp_branch = ''gh-pages'',
          dp_message = Some ''Update homepage'',
          dp_files = Some [\<lparr>fl_path = ''a.txt'', fl_content = ''x'', fl_encoding = None\<rparr>,
                           \<lparr>fl_path = ''b.txt'', fl_content = ''eA=='',
                            fl_encoding = Some ''base64''\<rparr>]\<rparr>
   \<and> dispatch stub_octokit ''deploy_to_github_pages'' args_deploy_two_files 0 =
       (Inr \<lparr>payload = JObj [(''success'', JBool True),
                             (''message'', JStr ''Files deployed successfully''),
                             (''commit_sha'', JStr ''c1''),
                             (''files_deployed'', JNum 2)],
              isError = None\<rparr>,
        [GetRef ''o'' ''r'' ''heads/gh-pages'', GetCommit ''o'' ''r'' ''c0'',
         CreateBlob ''o'' ''r'' ''x'' ''utf-8'', CreateBlob ''o'' ''r'' ''eA=='' ''base64'',
         CreateTree ''o'' ''r''
           [\<lparr>ti_path = ''a.txt'', ti_mode = ''100644'', ti_type = ''blob'', ti_sha = ''b2''\<rparr>,
            \<lparr>ti_path = ''b.txt'', ti_mode = ''100644'', ti_type = ''blob'', ti_sha = ''b3''\<rparr>]
           ''t0'',
         CreateCommit ''o'' ''r'' ''Update homepage'' ''t1'' [''c0''],
         UpdateRef ''o'' ''r'' ''heads/gh-pages'' ''c1''],
        7)
   \<and> (\<exists>new s5. updateRef stub_octokit ''o'' ''r'' ''heads/gh-pages'' new s5 = (Inr (), 7))"
proof -
  let ?files = "[\<lparr>fl_path = ''a.txt'', fl_content = ''x'', fl_encoding = None\<rparr>,
                 \<lparr>fl_path = ''b.txt'', fl_content = ''eA=='', fl_encoding = Some ''base64''\<rparr>]"
  let ?inp = "\<lparr>dp_owner = ''o'', dp_repo = ''r'', dp_branch = ''gh-pages'',
               dp_message = Some ''Update homepage'', dp_files = Some ?files\<rparr>"
  let ?env = "\<lparr>payload = JObj [(''success'', JBool True),
                             (''message'', JStr ''Files deployed successfully''),
                             (''commit_sha'', JStr ''c1''),
                             (''files_deployed'', JNum 2)],
              isError = None\<rparr>"
  have a: "parse DeployToGithubPagesSchema args_deploy_two_files = Inr ?inp"
    by code_simp
  have b: "dp_files ?inp = Some ?files"
    by simp
  have c: "?files \<noteq> []"
    by simp
  have d: "dispatch stub_octokit ''deploy_to_github_pages'' args_deploy_two_files 0 =
       (Inr ?env,
        [GetRef ''o'' ''r'' ''heads/gh-pages'', GetCommit ''o'' ''r'' ''c0'',
         CreateBlob ''o'' ''r'' ''x'' ''utf-8'', CreateBlob ''o'' ''r'' ''eA=='' ''base64'',
         CreateTree ''o'' ''r''
           [\<lparr>ti_path = ''a.txt'', ti_mode = ''100644'', ti_type = ''blob'', ti_sha = ''b2''\<rparr>,
            \<lparr>ti_path = ''b.txt'', ti_mode = ''100644'', ti_type = ''blob'', ti_sha = ''b3''\<rparr>]
           ''t0'',
         CreateCommit ''o'' ''r'' ''Update homepage'' ''t1'' [''c0''],
         UpdateRef ''o'' ''r'' ''heads/gh-pages'' ''c1''],
        7)"
    by code_simp
  have e: "isError ?env \<noteq> Some True"
    by simp
  from deploy_success_commit [OF a b c d e]
  obtain new s5 where
    "updateRef stub_octokit (dp_owner ?inp) (dp_repo ?inp) (''heads/'' @ dp_branch ?inp) new s5
       = (Inr (), 7)"
    by (elim exE conjE)
  then have "updateRef stub_octokit ''o'' ''r'' ''heads/gh-pages'' new s5 = (Inr (), 7)"
    by simp
  then have "\<exists>new s5. updateRef stub_octokit ''o'' ''r'' ''heads/gh-pages'' new s5 = (Inr (), 7)"
    by (intro exI)
  with a d show ?thesis by (intro conjI)
qed

text \<open>
  Claim C6 as written fails for a supplied message that is the empty string: the commit is
  created with the default message, not with the supplied one.
\<close>

theorem deploy_empty_message_counterexample:
  "parse DeployToGithubPagesSchema args_deploy_empty_message =
     Inr \<lparr>dp_owner = ''o'', dp_repo = ''r'', dp_branch = ''gh-pages'', dp_message = Some [],
          dp_files = Some [\<lparr>fl_path = ''a.txt'', fl_content = ''x'', fl_encoding = None\<rparr>]\<rparr>
   \<and> dispatch stub_octokit ''deploy_to_github_pages'' args_deploy_empty_message 0 =
       (Inr \<lparr>payload = JObj [(''success'', JBool True),
                             (''message'', JStr ''Files deployed successfully''),
                             (''commit_sha'', JStr ''c1''),
                             (''files_deployed'', JNum 1)],
              isError = None\<rparr>,
        [GetRef ''o'' ''r'' ''heads/gh-pages'', GetCommit ''o'' ''r'' ''c0'',
         CreateBlob ''o'' ''r'' ''x'' ''utf-8'',
         CreateTree ''o'' ''r''
           [\<lparr>ti_path = ''a.txt'', ti_mode = ''100644'', ti_type = ''blob'', ti_sha = ''b2''\<rparr>]
           ''t0'',
         CreateCommit ''o'' ''r'' ''Deploy to GitHub Pages'' ''t1'' [''c0''],
         UpdateRef ''o'' ''r'' ''heads/gh-pages'' ''c1''],
        6)
   \<and> ''Deploy to GitHub Pages'' \<noteq> []"
  by code_simp

text \<open>
  Claim C7. For every validated input of \<^verbatim>\<open>enable_github_pages\<close>, the call hands the upstream
  method "create pages site" one request, whose \<^verbatim>\<open>source.path\<close> is the caller's path when it
  is provided and \<^verbatim>\<open>/\<close> when it is omitted, and whose \<^verbatim>\<open>build_type\<close> is the caller's build
  type when it is provided and \<^verbatim>\<open>legacy\<close> when it is omitted: the outcome of the call (the
  envelope, the requests issued and the upstream state) is the one that the upstream
  method gives on that request. The defaults are not in the schema: in the validated
  input a key that the caller omitted is still undefined.
\<close>

theorem enable_request_defaults:
  assumes "parse EnableGithubPagesSchema args = Inr inp"
  shows "(let params =
            \<lparr>cp_owner = en_owner inp, cp_repo = en_repo inp,
             cp_source = \<lparr>ps_branch = src_branch (en_source inp),
                          ps_path = (case src_path (en_source inp) of
                                       None \<Rightarrow> ''/'' | Some x \<Rightarrow> x)\<rparr>,
             cp_build_type = (case en_build_type inp of None \<Rightarrow> ''legacy'' | Some b \<Rightarrow> b)\<rparr>
          in dispatch oct ''enable_github_pages'' args s =
               (case createPagesSite oct params s of
                  (Inl e, s') \<Rightarrow> (Inr (error_envelope e), [CreatePagesSite params], s')
                | (Inr data, s') \<Rightarrow>
                    (Inr \<lparr>payload =
                             obj [(''success'', Some (JBool True)),
                                  (''message'', Some (JStr ''GitHub Pages enabled successfully'')),
                                  (''url'', map_of data ''html_url''),
                                  (''source'', map_of data ''source''),
                                  (''build_type'', map_of data ''build_type'')],
                           isError = None\<rparr>,
                     [CreatePagesSite params], s')))
         \<and> (\<exists>kvs skvs. args = Some (JObj kvs) \<and> map_of kvs ''source'' = Some (JObj skvs)
              \<and> (map_of skvs ''path'' = None \<longrightarrow> src_path (en_source inp) = None)
              \<and> (\<forall>x. map_of skvs ''path'' = Some (JStr x) \<longrightarrow> src_path (en_source inp) = Some x)
              \<and> (map_of kvs ''build_type'' = None \<longrightarrow> en_build_type inp = None)
              \<and> (\<forall>b. map_of kvs ''build_type'' = Some (JStr b) \<longrightarrow> en_build_type inp = Some b))"
proof -
  obtain kvs where args: "args = Some (JObj kvs)"
    using EnableGithubPagesSchema_object [OF assms] by blast
  have p: "EnableGithubPagesSchema [] (Some (JObj kvs)) = Inr inp"
    using assms unfolding args parse_def .
  note f = EnableGithubPagesSchema_Inr [OF p]
  from SourceSchema_Inr [OF f(3)] obtain skvs where
    "map_of kvs ''source'' = Some (JObj skvs)
    \<and> map_of skvs ''branch'' = Some (JStr (src_branch (en_source inp)))
    \<and> ((map_of skvs ''path'' = None \<and> src_path (en_source inp) = None)
              \<or> (map_of skvs ''path'' = Some (JStr ''/'') \<and> src_path (en_source inp) = Some ''/'')
              \<or> (map_of skvs ''path'' = Some (JStr ''/docs'') \<and> src_path (en_source inp) = Some ''/docs''))"
    by (elim exE)
  then have src: "map_of kvs ''source'' = Some (JObj skvs)"
    and pa: "(map_of skvs ''path'' = None \<and> src_path (en_source inp) = None)
              \<or> (map_of skvs ''path'' = Some (JStr ''/'') \<and> src_path (en_source inp) = Some ''/'')
              \<or> (map_of skvs ''path'' = Some (JStr ''/docs'') \<and> src_path (en_source inp) = Some ''/docs'')"
    by simp_all
  have pa': "src_path (en_source inp) = None \<or> src_path (en_source inp) = Some ''/''
             \<or> src_path (en_source inp) = Some ''/docs''"
    using pa by auto
  have bt': "en_build_type inp = None \<or> en_build_type inp = Some ''legacy''
             \<or> en_build_type inp = Some ''workflow''"
    using f(4) by auto
  have nl: "\<not> isl (fst (enableGithubPages oct args s))"
    unfolding enable_run [OF assms] Let_def by (simp split: prod.splits sum.splits)
  have d: "dispatch oct ''enable_github_pages'' args s = enableGithubPages oct args s"
    using dispatch_returned [of oct "''enable_github_pages''" args s] nl
    by (simp add: route_simps)
  have run: "(let params =
            \<lparr>cp_owner = en_owner inp, cp_repo = en_repo inp,
             cp_source = \<lparr>ps_branch = src_branch (en_source inp),
                          ps_path = (case src_path (en_source inp) of
                                       None \<Rightarrow> ''/'' | Some x \<Rightarrow> x)\<rparr>,
             cp_build_type = (case en_build_type inp of None \<Rightarrow> ''legacy'' | Some b \<Rightarrow> b)\<rparr>
          in dispatch oct ''enable_github_pages'' args s =
               (case createPagesSite oct params s of
                  (Inl e, s') \<Rightarrow> (Inr (error_envelope e), [CreatePagesSite params], s')
                | (Inr data, s') \<Rightarrow>
                    (Inr \<lparr>payload =
                             obj [(''success'', Some (JBool True)),
                                  (''message'', Some (JStr ''GitHub Pages enabled successfully'')),
                                  (''url'', map_of data ''html_url''),
                                  (''source'', map_of data ''source''),
                                  (''build_type'', map_of data ''build_type'')],
                           isError = None\<rparr>,
                     [CreatePagesSite params], s')))"
    unfolding d enable_run [OF assms] or_default_path(1) [OF pa'] or_default_build_type [OF bt']
      Let_def
    by (rule refl)
  have raw: "(map_of skvs ''path'' = None \<longrightarrow> src_path (en_source inp) = None)
              \<and> (\<forall>x. map_of skvs ''path'' = Some (JStr x) \<longrightarrow> src_path (en_source inp) = Some x)"
    using pa by auto
  have raw2: "(map_of kvs ''build_type'' = None \<longrightarrow> en_build_type inp = None)
              \<and> (\<forall>b. map_of kvs ''build_type'' = Some (JStr b) \<longrightarrow> en_build_type inp = Some b)"
    using f(4) by auto
  show ?thesis
    apply (rule conjI [OF run])
    apply (rule exI [of _ kvs])
    apply (rule exI [of _ skvs])
    apply (intro conjI args src raw [THEN conjunct1] raw [THEN conjunct2]
                 raw2 [THEN conjunct1] raw2 [THEN conjunct2])
    done
qed

theorem enable_request_defaults_witness:
  "parse EnableGithubPagesSchema args_enable_branch_only =
     Inr \<lparr>en_owner = ''o'', en_repo = ''r'',
          en_source = \<lparr>src_branch = ''main'', src_path = None\<rparr>, en_build_type = None\<rparr>
   \<and> createPagesSite stub_octokit
       \<lparr>cp_owner = ''o'', cp_repo = ''r'',
        cp_source = \<lparr>ps_branch = ''main'', ps_path = ''/''\<rparr>, cp_build_type = ''legacy''\<rparr> 0 =
       (Inr [(''html_url'', JStr ''https://o.github.io/r/''),
             (''source'', JObj [(''branch'', JStr ''main''), (''path'', JStr ''/'')]),
             (''build_type'', JStr ''legacy'')], 1)
   \<and> dispatch stub_octokit ''enable_github_pages'' args_enable_branch_only 0 =
       (Inr \<lparr>payload = JObj [(''success'', JBool True),
                             (''message'', JStr ''GitHub Pages enabled successfully''),
                             (''url'', JStr ''https://o.github.io/r/''),
                             (''source'', JObj [(''branch'', JStr ''main''), (''path'', JStr ''/'')]),
                             (''build_type'', JStr ''legacy'')],
              isError = None\<rparr>,
        [CreatePagesSite \<lparr>cp_owner = ''o'', cp_repo = ''r'',
                          cp_source = \<lparr>ps_branch = ''main'', ps_path = ''/''\<rparr>,
                          cp_build_type = ''legacy''\<rparr>],
        1)"
proof -
  have a: "parse EnableGithubPagesSchema args_enable_branch_only =
     Inr \<lparr>en_owner = ''o'', en_repo = ''r'',
          en_source = \<lparr>src_branch = ''main'', src_path = None\<rparr>, en_build_type = None\<rparr>"
    by code_simp
  have b: "createPagesSite stub_octokit
       \<lparr>cp_owner = ''o'', cp_repo = ''r'',
        cp_source = \<lparr>ps_branch = ''main'', ps_path = ''/''\<rparr>, cp_build_type = ''legacy''\<rparr> 0 =
       (Inr [(''html_url'', JStr ''https://o.github.io/r/''),
             (''source'', JObj [(''branch'', JStr ''main''), (''path'', JStr ''/'')]),
             (''build_type'', JStr ''legacy'')], 1)"
    by (simp add: stub_octokit_def)
  have c: "dispatch stub_octokit ''enable_github_pages'' args_enable_branch_only 0 =
       (Inr \<lparr>payload = JObj [(''success'', JBool True),
                             (''message'', JStr ''GitHub Pages enabled successfully''),
                             (''url'', JStr ''https://o.github.io/r/''),
                             (''source'', JObj [(''branch'', JStr ''main''), (''path'', JStr ''/'')]),
                             (''build_type'', JStr ''legacy'')],
              isError = None\<rparr>,
        [CreatePagesSite \<lparr>cp_owner = ''o'', cp_repo = ''r'',
                          cp_source = \<lparr>ps_branch = ''main'', ps_path = ''/''\<rparr>,
                          cp_build_type = ''legacy''\<rparr>],
        1)"
    using enable_request_defaults [OF a, of stub_octokit 0, THEN conjunct1]
    by (simp add: Let_def b obj_def)
  show ?thesis using a b c by (intro conjI)
qed

text \<open>
  Claim C8. When the \<^verbatim>\<open>source.path\<close> of a call to \<^verbatim>\<open>update_github_pages_config\<close> is a value
  other than \<^verbatim>\<open>/\<close> and \<^verbatim>\<open>/docs\<close>, the call is rejected with no upstream request, and in the
  same way as \<^verbatim>\<open>enable_github_pages\<close> rejects these arguments: both raise
  \<^verbatim>\<open>Invalid arguments\<close>, both report the same issue at the path \<^verbatim>\<open>source.path\<close>, and the
  issues of the update call are those of the enable call followed by those of \<^verbatim>\<open>cname\<close>,
  the one key only the update schema has.
\<close>

theorem source_path_outside_enum_rejected:
  assumes "args = Some (JObj kvs)"
    and "map_of kvs ''source'' = Some (JObj skvs)"
    and "map_of skvs ''path'' = Some v"
    and "v \<noteq> JStr ''/''" and "v \<noteq> JStr ''/docs''"
  shows "\<exists>iss_update iss_enable m.
           dispatch oct ''update_github_pages_config'' args s =
             (Inl (Error (invalid_arguments iss_update)), [], s)
         \<and> dispatch oct ''enable_github_pages'' args s =
             (Inl (Error (invalid_arguments iss_enable)), [], s)
         \<and> \<lparr>issue_path = [Key ''source'', Key ''path''], issue_message = m\<rparr> \<in> set iss_enable
         \<and> \<lparr>issue_path = [Key ''source'', Key ''path''], issue_message = m\<rparr> \<in> set iss_update
         \<and> iss_update = iss_enable @ issues_of (z_field (z_optional z_string) [] kvs ''cname'')"
proof -
  let ?ie = "issues_of (parse EnableGithubPagesSchema args)"
  let ?iu = "issues_of (parse UpdateGithubPagesConfigSchema args)"
  obtain m where m: "z_enum [''/'', ''/docs''] [Key ''source'', Key ''path''] (Some v) =
                       Inl [\<lparr>issue_path = [Key ''source'', Key ''path''], issue_message = m\<rparr>]"
    using z_enum_rejects [OF assms(4,5), of "[Key ''source'', Key ''path'']"] by (elim exE)
  let ?e = "\<lparr>issue_path = [Key ''source'', Key ''path''], issue_message = m\<rparr>"
  have "issues_of (z_field (z_optional (z_enum [''/'', ''/docs''])) [Key ''source''] skvs ''path'')
          = [?e]"
    using m assms(3) by (simp add: z_field_def z_optional_def)
  then have "?e \<in> set (issues_of (z_field SourceSchema [] kvs ''source''))"
    using assms(2) by (simp add: z_field_def issues_of_SourceSchema)
  then have e: "?e \<in> set ?ie"
    unfolding assms(1) parse_def issues_of_EnableGithubPagesSchema by simp
  have u: "?iu = ?ie @ issues_of (z_field (z_optional z_string) [] kvs ''cname'')"
    unfolding assms(1) using assms(2) by (intro issues_update_enable) simp
  have eu: "?e \<in> set ?iu" unfolding u using e by simp
  from e have "?ie \<noteq> []" by auto
  then have "validation_failure ''enable_github_pages'' args = Some ?ie"
    unfolding validation_failure_simps by (rule failure_issues_of)
  then have de: "dispatch oct ''enable_github_pages'' args s =
                   (Inl (Error (invalid_arguments ?ie)), [], s)"
    by (intro dispatch_validation_failure) (simp_all add: tool_names_cases)
  from eu have "?iu \<noteq> []" by auto
  then have "validation_failure ''update_github_pages_config'' args = Some ?iu"
    unfolding validation_failure_simps by (rule failure_issues_of)
  then have du: "dispatch oct ''update_github_pages_config'' args s =
                   (Inl (Error (invalid_arguments ?iu)), [], s)"
    by (intro dispatch_validation_failure) (simp_all add: tool_names_cases)
  show ?thesis
    by (intro exI [of _ ?iu] exI [of _ ?ie] exI [of _ m] conjI du de e eu u)
qed

theorem source_path_outside_enum_rejected_witness:
  "args_source_bad_path =
     Some (JObj [(''owner'', JStr ''o''), (''repo'', JStr ''r''),
                 (''source'', JObj [(''branch'', JStr ''main''), (''path'', JStr ''/site'')])])
   \<and> map_of [(''owner'', JStr ''o''), (''repo'', JStr ''r''),
             (''source'', JObj [(''branch'', JStr ''main''), (''path'', JStr ''/site'')])] ''source''
       = Some (JObj [(''branch'', JStr ''main''), (''path'', JStr ''/site'')])
   \<and> map_of [(''branch'', JStr ''main''), (''path'', JStr ''/site'')] ''path'' = Some (JStr ''/site'')
   \<and> JStr ''/site'' \<noteq> JStr ''/'' \<and> JStr ''/site'' \<noteq> JStr ''/docs''
   \<and> (\<exists>iss. dispatch stub_octokit ''update_github_pages_config'' args_source_bad_path 0 =
               (Inl (Error (invalid_arguments iss)), [], 0)
           \<and> dispatch stub_octokit ''enable_github_pages'' args_source_bad_path 0 =
               (Inl (Error (invalid_arguments iss)), [], 0))"
proof -
  have a: "args_source_bad_path =
     Some (JObj [(''owner'', JStr ''o''), (''repo'', JStr ''r''),
                 (''source'', JObj [(''branch'', JStr ''main''), (''path'', JStr ''/site'')])])"
    by (simp add: args_source_bad_path_def)
  have b: "map_of [(''owner'', JStr ''o''), (''repo'', JStr ''r''),
             (''source'', JObj [(''branch'', JStr ''main''), (''path'', JStr ''/site'')])] ''source''
       = Some (JObj [(''branch'', JStr ''main''), (''path'', JStr ''/site'')])"
    by code_simp
  have c: "map_of [(''branch'', JStr ''main''), (''path'', JStr ''/site'')] ''path'' = Some (JStr ''/site'')"
    by code_simp
  have d: "JStr ''/site'' \<noteq> JStr ''/''" by simp
  have e: "JStr ''/site'' \<noteq> JStr ''/docs''" by simp
  have n: "issues_of (z_field (z_optional z_string) []
             [(''owner'', JStr ''o''), (''repo'', JStr ''r''),
              (''source'', JObj [(''branch'', JStr ''main''), (''path'', JStr ''/site'')])] ''cname'')
           = []"
    by code_simp
  from source_path_outside_enum_rejected [OF a b c d e, of stub_octokit 0]
  obtain iu ie where
    u: "dispatch stub_octokit ''update_github_pages_config'' args_source_bad_path 0 =
               (Inl (Error (invalid_arguments iu)), [], 0)"
    and en: "dispatch stub_octokit ''enable_github_pages'' args_source_bad_path 0 =
               (Inl (Error (invalid_arguments ie)), [], 0)"
    and eq: "iu = ie @ issues_of (z_field (z_optional z_string) []
             [(''owner'', JStr ''o''), (''repo'', JStr ''r''),
              (''source'', JObj [(''branch'', JStr ''main''), (''path'', JStr ''/site'')])] ''cname'')"
    by (elim exE conjE)
  from eq have "iu = ie" unfolding n by simp
  with u en have "dispatch stub_octokit ''update_github_pages_config'' args_source_bad_path 0 =
               (Inl (Error (invalid_arguments ie)), [], 0)
           \<and> dispatch stub_octokit ''enable_github_pages'' args_source_bad_path 0 =
               (Inl (Error (invalid_arguments ie)), [], 0)"
    by simp
  then have "\<exists>iss. dispatch stub_octokit ''update_github_pages_config'' args_source_bad_path 0 =
               (Inl (Error (invalid_arguments iss)), [], 0)
           \<and> dispatch stub_octokit ''enable_github_pages'' args_source_bad_path 0 =
               (Inl (Error (invalid_arguments iss)), [], 0)"
    by (rule exI)
  with a b c d e show ?thesis by (intro conjI)
qed



text \<open>
  Claim C10. When a call to \<^verbatim>\<open>update_github_pages_config\<close> passes validation and supplies
  \<^verbatim>\<open>source\<close> with a branch but without \<^verbatim>\<open>path\<close>, the call hands the upstream update method
  one request, whose \<^verbatim>\<open>source\<close> is the caller's branch with \<^verbatim>\<open>path\<close> set to \<^verbatim>\<open>/\<close>: the handler
  fills the default in rather than leaving \<^verbatim>\<open>path\<close> out, and the outcome of the call (the
  envelope, the requests issued and the upstream state) is the one that the upstream
  method gives on that request.
\<close>

theorem update_branch_only_sends_root_path:
  assumes "args = Some (JObj kvs)"
    and "map_of kvs ''source'' = Some (JObj skvs)"
    and "map_of skvs ''path'' = None"
    and "parse UpdateGithubPagesConfigSchema args = Inr inp"
  shows "\<exists>b. map_of skvs ''branch'' = Some (JStr b)
           \<and> (let p = \<lparr>upd_owner = up_owner inp, upd_repo = up_repo inp,
                        upd_source = Some \<lparr>ps_branch = b, ps_path = ''/''\<rparr>,
                        upd_build_type = up_build_type inp, upd_cname = up_cname inp\<rparr>
              in dispatch oct ''update_github_pages_config'' args s =
                   (case updateInformationAboutPagesSite oct p s of
                      (Inl e, s') \<Rightarrow>
                        (Inr (error_envelope e), [UpdateInformationAboutPagesSite p], s')
                    | (Inr None, s') \<Rightarrow>
                        (Inr (error_envelope (undefined_property_error ''html_url'')),
                         [UpdateInformationAboutPagesSite p], s')
                    | (Inr (Some data), s') \<Rightarrow>
                        (Inr \<lparr>payload =
                                 obj [(''success'', Some (JBool True)),
                                      (''message'',
                                       Some (JStr ''GitHub Pages configuration updated successfully'')),
                                      (''url'', map_of data ''html_url''),
                                      (''source'', map_of data ''source''),
                                      (''build_type'', map_of data ''build_type''),
                                      (''cname'', map_of data ''cname'')],
                               isError = None\<rparr>,
                         [UpdateInformationAboutPagesSite p], s')))"
proof -
  have p: "UpdateGithubPagesConfigSchema [] (Some (JObj kvs)) = Inr inp"
    using assms(4) unfolding assms(1) parse_def .
  from UpdateGithubPagesConfigSchema_Inr(3) [OF p] obtain so where
    so: "SourceSchema [Key ''source''] (Some (JObj skvs)) = Inr so" "up_source inp = Some so"
    unfolding assms(2) by auto
  from SourceSchema_Inr [OF so(1)] assms(3)
  have b: "map_of skvs ''branch'' = Some (JStr (src_branch so))" and pa: "src_path so = None"
    by auto
  have nl: "\<not> isl (fst (updateGithubPagesConfig oct args s))"
    unfolding update_run [OF assms(4)] Let_def
    by (simp split: prod.splits sum.splits option.splits)
  have d: "dispatch oct ''update_github_pages_config'' args s = updateGithubPagesConfig oct args s"
    using dispatch_returned [of oct "''update_github_pages_config''" args s] nl
    by (simp add: route_simps)
  have src: "map_option
               (\<lambda>so. \<lparr>ps_branch = src_branch so,
                      ps_path = (case src_path so of None \<Rightarrow> ''/'' | Some x \<Rightarrow> x)\<rparr>)
               (up_source inp) = Some \<lparr>ps_branch = src_branch so, ps_path = ''/''\<rparr>"
    by (simp add: so(2) pa)
  have run: "(let p = \<lparr>upd_owner = up_owner inp, upd_repo = up_repo inp,
                        upd_source = Some \<lparr>ps_branch = src_branch so, ps_path = ''/''\<rparr>,
                        upd_build_type = up_build_type inp, upd_cname = up_cname inp\<rparr>
              in dispatch oct ''update_github_pages_config'' args s =
                   (case updateInformationAboutPagesSite oct p s of
                      (Inl e, s') \<Rightarrow>
                        (Inr (error_envelope e), [UpdateInformationAboutPagesSite p], s')
                    | (Inr None, s') \<Rightarrow>
                        (Inr (error_envelope (undefined_property_error ''html_url'')),
                         [UpdateInformationAboutPagesSite p], s')
                    | (Inr (Some data), s') \<Rightarrow>
                        (Inr \<lparr>payload =
                                 obj [(''success'', Some (JBool True)),
                                      (''message'',
                                       Some (JStr ''GitHub Pages configuration updated successfully'')),
                                      (''url'', map_of data ''html_url''),
                                      (''source'', map_of data ''source''),
                                      (''build_type'', map_of data ''build_type''),
                                      (''cname'', map_of data ''cname'')],
                               isError = None\<rparr>,
                         [UpdateInformationAboutPagesSite p], s')))"
    unfolding d update_run [OF assms(4)] src Let_def by (rule refl)
  show ?thesis
    by (rule exI [of _ "src_branch so"]) (rule conjI [OF b run])
qed

theorem update_branch_only_sends_root_path_witness:
  "map_of [(''owner'', JStr ''o''), (''repo'', JStr ''r''),
           (''source'', JObj [(''branch'', JStr ''main'')])] ''source'' =
     Some (JObj [(''branch'', JStr ''main'')])
   \<and> map_of [(''branch'', JStr ''main'')] ''path'' = None
   \<and> parse UpdateGithubPagesConfigSchema args_enable_branch_only =
       Inr \<lparr>up_owner = ''o'', up_repo = ''r'',
            up_source = Some \<lparr>src_branch = ''main'', src_path = None\<rparr>,
            up_build_type = None, up_cname = None\<rparr>
   \<and> updateInformationAboutPagesSite stub_octokit
       \<lparr>upd_owner = ''o'', upd_repo = ''r'',
        upd_source = Some \<lparr>ps_branch = ''main'', ps_path = ''/''\<rparr>,
        upd_build_type = None, upd_cname = None\<rparr> 0 = (Inr (Some []), 1)
   \<and> dispatch stub_octokit ''update_github_pages_config'' args_enable_branch_only 0 =
       (Inr \<lparr>payload = JObj [(''success'', JBool True),
                             (''message'',
                              JStr ''GitHub Pages configuration updated successfully'')],
              isError = None\<rparr>,
        [UpdateInformationAboutPagesSite
           \<lparr>upd_owner = ''o'', upd_repo = ''r'',
            upd_source = Some \<lparr>ps_branch = ''main'', ps_path = ''/''\<rparr>,
            upd_build_type = None, upd_cname = None\<rparr>],
        1)"
proof -
  have a: "args_enable_branch_only =
             Some (JObj [(''owner'', JStr ''o''), (''repo'', JStr ''r''),
                         (''source'', JObj [(''branch'', JStr ''main'')])])"
    by (simp add: args_enable_branch_only_def)
  have b: "map_of [(''owner'', JStr ''o''), (''repo'', JStr ''r''),
           (''source'', JObj [(''branch'', JStr ''main'')])] ''source'' =
     Some (JObj [(''branch'', JStr ''main'')])"
    by code_simp
  have c: "map_of [(''branch'', JStr ''main'')] ''path'' = None"
    by code_simp
  have d: "parse UpdateGithubPagesConfigSchema args_enable_branch_only =
       Inr \<lparr>up_owner = ''o'', up_repo = ''r'',
            up_source = Some \<lparr>src_branch = ''main'', src_path = None\<rparr>,
            up_build_type = None, up_cname = None\<rparr>"
    by code_simp
  have e: "updateInformationAboutPagesSite stub_octokit
       \<lparr>upd_owner = ''o'', upd_repo = ''r'',
        upd_source = Some \<lparr>ps_branch = ''main'', ps_path = ''/''\<rparr>,
        upd_build_type = None, upd_cname = None\<rparr> 0 = (Inr (Some []), 1)"
    by (simp add: stub_octokit_def)
  have f: "dispatch stub_octokit ''update_github_pages_config'' args_enable_branch_only 0 =
       (Inr \<lparr>payload = JObj [(''success'', JBool True),
                             (''message'',
                              JStr ''GitHub Pages configuration updated successfully'')],
              isError = None\<rparr>,
        [UpdateInformationAboutPagesSite
           \<lparr>upd_owner = ''o'', upd_repo = ''r'',
            upd_source = Some \<lparr>ps_branch = ''main'', ps_path = ''/''\<rparr>,
            upd_build_type = None, upd_cname = None\<rparr>],
        1)"
    using update_branch_only_sends_root_path [OF a b c d, of stub_octokit 0]
    by (simp add: Let_def e obj_def)
  show ?thesis using b c d e f by (intro conjI)
qed

end
